theory Spec2Isabelle
  imports Main "HOL-Library.Word"
begin

section \<open>The binding layer of node-sass (src/binding.cpp)\<close>

text \<open>
  The five entry points of binding.cpp (OldRender, Render, RenderSync, RenderFile,
  RenderFileSync), the two worker functions and the three completion handlers are
  embedded as functions over an explicit store of character buffers. The stylesheet
  compiler, libuv's work queue, the context allocators and the release helpers of
  sass_context_wrapper.h are not part of binding.cpp; they are parameters, collected
  in the record \<open>host\<close>.
\<close>

subsection \<open>Character buffers\<close>

type_synonym addr = nat

text \<open>A \<open>char*\<close>: \<open>None\<close> is the NULL pointer.\<close>

type_synonym ptr = "addr option"

text \<open>
  The store: the live buffers with their capacity and their characters, the next fresh
  address, the log of every non-NULL pointer handed to a release (oldest first), and the
  log of those releases that found no buffer at the address: a second release of a
  buffer, or a pointer that no allocation returned. Such a release is undefined
  behaviour. A buffer that is released leaves \<open>cells\<close>; a pointer to it is dangling
  from then on.
\<close>

record heap =
  cells :: "addr \<rightharpoonup> (nat \<times> string)"
  brk :: addr
  deletes :: "addr list"
  faults :: "addr list"

definition empty_heap :: heap where
  "empty_heap = \<lparr>cells = Map.empty, brk = 0, deletes = [], faults = []\<rparr>"

text \<open>A C string ends at its first NUL character.\<close>

definition c_string :: "string \<Rightarrow> string" where
  "c_string s = takeWhile (\<lambda>c. c \<noteq> CHR 0x00) s"

definition strlen :: "string \<Rightarrow> nat" where
  "strlen s = length (c_string s)"

text \<open>\<open>new char[n]\<close>: a fresh buffer of capacity \<open>n\<close>, nothing written to it yet.
  Allocation is taken to succeed.\<close>

definition new_chars :: "heap \<Rightarrow> nat \<Rightarrow> addr \<times> heap" where
  "new_chars h n = (brk h, h\<lparr>cells := (cells h)(brk h \<mapsto> (n, [])), brk := Suc (brk h)\<rparr>)"

text \<open>\<open>strcpy(dst, s)\<close> into a live buffer.\<close>

definition strcpy :: "heap \<Rightarrow> addr \<Rightarrow> string \<Rightarrow> heap" where
  "strcpy h dst s =
     (case cells h dst of
        None \<Rightarrow> h
      | Some (n, old) \<Rightarrow> h\<lparr>cells := (cells h)(dst \<mapsto> (n, c_string s))\<rparr>)"

text \<open>\<open>delete p\<close>: nothing for NULL; otherwise the buffer is gone and the release is
  logged, as a fault too when there was no buffer at \<open>p\<close>.\<close>

definition delete_ptr :: "heap \<Rightarrow> ptr \<Rightarrow> heap" where
  "delete_ptr h p =
     (case p of
        None \<Rightarrow> h
      | Some a \<Rightarrow>
          h\<lparr>cells := (cells h)(a := None),
            deletes := deletes h @ [a],
            faults := (if cells h a = None then faults h @ [a] else faults h)\<rparr>)"

text \<open>
  \<open>String::AsciiValue v(arg)\<close>: V8 converts the argument into a buffer that the
  \<open>AsciiValue\<close> object owns; \<open>*v\<close> is the address of that buffer. The destructor,
  run when the entry point returns, releases it.
\<close>

definition AsciiValue :: "heap \<Rightarrow> string \<Rightarrow> addr \<times> heap" where
  "AsciiValue h s =
     (brk h, h\<lparr>cells := (cells h)(brk h \<mapsto> (Suc (length s), s)), brk := Suc (brk h)\<rparr>)"

definition AsciiValue_destroy :: "heap \<Rightarrow> addr \<Rightarrow> heap" where
  "AsciiValue_destroy h a = delete_ptr h (Some a)"

text \<open>What a reader of the C string at \<open>p\<close> finds: nothing behind NULL or a dangling pointer.\<close>

definition read_str :: "heap \<Rightarrow> ptr \<Rightarrow> string option" where
  "read_str h p =
     (case p of
        None \<Rightarrow> None
      | Some a \<Rightarrow> (case cells h a of None \<Rightarrow> None | Some (n, s) \<Rightarrow> Some (c_string s)))"

definition times_released :: "heap \<Rightarrow> addr \<Rightarrow> nat" where
  "times_released h a = count_list (deletes h) a"

subsection \<open>Contexts\<close>

type_synonym int32 = "32 word"

text \<open>Modelled from the spec: sass_interface.h is not among the sources; the spec fixes
  the encoding of the source-comment modes as None = 0, Inline = 1, Map = 2.\<close>

definition SASS_SOURCE_COMMENTS_MAP :: int32 where
  "SASS_SOURCE_COMMENTS_MAP = 2"

record sass_options =
  output_style :: int32
  source_comments :: int32
  include_paths :: ptr
  image_path :: ptr

text \<open>
  The fields the two context structs share. The texts the compiler writes
  (\<open>output_string\<close>, \<open>error_message\<close>, \<open>source_map_string\<close>) are kept by value: their
  buffers belong to the compiler and are not allocated in binding.cpp.
\<close>

record sass_context_base =
  output_string :: string
  options :: sass_options
  error_status :: int32
  error_message :: string

record sass_context = sass_context_base +
  source_string :: ptr

record sass_file_context = sass_context_base +
  input_path :: ptr
  source_map_string :: string
  source_map_file :: ptr

subsection \<open>JavaScript values, callbacks and what an observer sees\<close>

datatype js_value = JNull | JUndefined | JString string

text \<open>A JavaScript function, as far as the binding can tell: called with arguments, it
  returns (\<open>False\<close>) or raises (\<open>True\<close>).\<close>

type_synonym js_function = "js_value list \<Rightarrow> bool"

record 'c context_wrapper =
  ctx :: 'c
  callback :: "js_function option"
  errorCallback :: "js_function option"

type_synonym sass_context_wrapper = "sass_context context_wrapper"
type_synonym sass_file_context_wrapper = "sass_file_context context_wrapper"

datatype slot = Callback | ErrorCallback

datatype release_helper =
  Free_context | Free_file_context | Free_context_wrapper | Free_file_context_wrapper

datatype buffer_field = Source_string | Input_path | Include_paths | Image_path | Source_map_file

datatype event =
  Call slot "js_value list"
| FatalException
| Release release_helper
| Segfault

text \<open>How a call ends for its caller: with a value, with a raised error, with the
  process aborted, or undefined, after a release that was a fault.\<close>

datatype outcome = Returned js_value | Threw string | Aborted | Undefined

text \<open>An entry point that is about to end with \<open>r\<close>, having taken the store from \<open>h0\<close>
  to \<open>h\<close>.\<close>

definition at_return :: "heap \<Rightarrow> heap \<Rightarrow> outcome \<Rightarrow> outcome" where
  "at_return h0 h r = (if faults h = faults h0 then r else Undefined)"

text \<open>The compiler reads a request and writes a result.\<close>

record request =
  req_source :: "string option"
  req_include_paths :: "string option"
  req_image_path :: "string option"
  req_output_style :: int32
  req_source_comments :: int32

record file_request = request +
  req_source_map_file :: "string option"

record result =
  res_error_status :: int32
  res_output_string :: string
  res_error_message :: string
  res_source_map_string :: string

text \<open>
  Everything binding.cpp calls and does not define:
  \<^item> \<open>sass_new_context\<close>, \<open>sass_new_file_context\<close>, \<open>sass_new_context_wrapper\<close>,
    \<open>sass_new_file_context_wrapper\<close>: the structs the allocators hand out;
  \<^item> \<open>compile\<close>, \<open>compile_file\<close>: the compiler behind \<open>sass_compile\<close> and \<open>sass_compile_file\<close>;
  \<^item> \<open>queue_status\<close>: what \<open>uv_queue_work\<close> returns (0: the work is queued);
  \<^item> \<open>assertions\<close>: whether \<open>assert\<close> is compiled in (no \<open>NDEBUG\<close>);
  \<^item> \<open>helper_frees\<close>: which of a context's buffer pointers each release helper releases.
\<close>

record host =
  sass_new_context :: sass_context
  sass_new_file_context :: sass_file_context
  sass_new_context_wrapper :: sass_context_wrapper
  sass_new_file_context_wrapper :: sass_file_context_wrapper
  compile :: "request \<Rightarrow> result"
  compile_file :: "file_request \<Rightarrow> result"
  queue_status :: int32
  assertions :: bool
  helper_frees :: "release_helper \<Rightarrow> buffer_field list"

text \<open>The arguments of a call. Every entry point reads its own positional arguments:
  \<open>a_source\<close> is \<open>args[0]\<close> (the source text, or the input path of the file variants).\<close>

record call_args =
  a_source :: string
  a_callback :: js_function
  a_errorCallback :: js_function
  a_include_paths :: string
  a_output_style :: int32
  a_source_comments :: int32
  a_source_map_path :: string

subsection \<open>The compiler calls\<close>

definition request_of :: "heap \<Rightarrow> sass_context \<Rightarrow> request" where
  "request_of h c =
     \<lparr>req_source = read_str h (source_string c),
      req_include_paths = read_str h (include_paths (options c)),
      req_image_path = read_str h (image_path (options c)),
      req_output_style = output_style (options c),
      req_source_comments = source_comments (options c)\<rparr>"

definition file_request_of :: "heap \<Rightarrow> sass_file_context \<Rightarrow> file_request" where
  "file_request_of h c =
     \<lparr>req_source = read_str h (input_path c),
      req_include_paths = read_str h (include_paths (options c)),
      req_image_path = read_str h (image_path (options c)),
      req_output_style = output_style (options c),
      req_source_comments = source_comments (options c),
      req_source_map_file = read_str h (source_map_file c)\<rparr>"

definition sass_compile :: "host \<Rightarrow> heap \<Rightarrow> sass_context \<Rightarrow> sass_context" where
  "sass_compile env h c =
     (let r = compile env (request_of h c)
      in c\<lparr>output_string := res_output_string r,
           error_status := res_error_status r,
           error_message := res_error_message r\<rparr>)"

definition sass_compile_file :: "host \<Rightarrow> heap \<Rightarrow> sass_file_context \<Rightarrow> sass_file_context" where
  "sass_compile_file env h c =
     (let r = compile_file env (file_request_of h c)
      in c\<lparr>output_string := res_output_string r,
           error_status := res_error_status r,
           error_message := res_error_message r,
           source_map_string := res_source_map_string r\<rparr>)"

subsection \<open>The release helpers\<close>

text \<open>
  \<open>sass_free_context\<close>, \<open>sass_free_file_context\<close>, \<open>sass_free_context_wrapper\<close> and
  \<open>sass_free_file_context_wrapper\<close> are called by binding.cpp and defined elsewhere.
  Which of a context's buffer pointers a helper hands to a release is the host's
  \<open>helper_frees\<close>; the structs themselves, the callback handles and the compiler's
  texts are not buffers of this store.
\<close>

definition context_ptr :: "sass_context \<Rightarrow> buffer_field \<Rightarrow> ptr" where
  "context_ptr c f =
     (case f of
        Source_string \<Rightarrow> source_string c
      | Include_paths \<Rightarrow> include_paths (options c)
      | Image_path \<Rightarrow> image_path (options c)
      | Input_path \<Rightarrow> None
      | Source_map_file \<Rightarrow> None)"

definition file_context_ptr :: "sass_file_context \<Rightarrow> buffer_field \<Rightarrow> ptr" where
  "file_context_ptr c f =
     (case f of
        Input_path \<Rightarrow> input_path c
      | Include_paths \<Rightarrow> include_paths (options c)
      | Image_path \<Rightarrow> image_path (options c)
      | Source_map_file \<Rightarrow> source_map_file c
      | Source_string \<Rightarrow> None)"

definition release_all :: "heap \<Rightarrow> ptr list \<Rightarrow> heap" where
  "release_all h ps = foldl delete_ptr h ps"

definition sass_free_context :: "host \<Rightarrow> heap \<Rightarrow> sass_context \<Rightarrow> heap" where
  "sass_free_context env h c = release_all h (map (context_ptr c) (helper_frees env Free_context))"

definition sass_free_file_context :: "host \<Rightarrow> heap \<Rightarrow> sass_file_context \<Rightarrow> heap" where
  "sass_free_file_context env h c =
     release_all h (map (file_context_ptr c) (helper_frees env Free_file_context))"

definition sass_free_context_wrapper :: "host \<Rightarrow> heap \<Rightarrow> sass_context_wrapper \<Rightarrow> heap" where
  "sass_free_context_wrapper env h w =
     release_all h (map (context_ptr (ctx w)) (helper_frees env Free_context_wrapper))"

definition sass_free_file_context_wrapper ::
  "host \<Rightarrow> heap \<Rightarrow> sass_file_context_wrapper \<Rightarrow> heap" where
  "sass_free_file_context_wrapper env h w =
     release_all h (map (file_context_ptr (ctx w)) (helper_frees env Free_file_context_wrapper))"

subsection \<open>Completion handlers\<close>

text \<open>\<open>cb->Call(argc, argv)\<close> through a \<open>NanCallback*\<close>: the call that is observed and
  whether the function raised (what \<open>try_catch.HasCaught()\<close> reports afterwards).
  Through a NULL pointer there is no call.\<close>

definition NanCallback_Call ::
  "slot \<Rightarrow> js_function option \<Rightarrow> js_value list \<Rightarrow> (event \<times> bool) option" where
  "NanCallback_Call sl cb argv =
     (case cb of None \<Rightarrow> None | Some f \<Rightarrow> Some (Call sl argv, f argv))"

text \<open>Lines 42 to 44, 100 to 102 and 217 to 219: a caught exception goes to
  \<open>node::FatalException\<close>, and the handler goes on.\<close>

definition report_caught :: "bool \<Rightarrow> event list" where
  "report_caught caught = (if caught then [FatalException] else [])"

text \<open>\<open>MakeOldCallback\<close>, lines 18 to 47.\<close>

definition MakeOldCallback :: "host \<Rightarrow> heap \<Rightarrow> sass_context_wrapper \<Rightarrow> event list \<times> heap" where
  "MakeOldCallback env h ctx_w =
     (let c = ctx ctx_w;
          called =
            (if error_status c = 0
             then NanCallback_Call Callback (callback ctx_w) [JNull, JString (output_string c)]
             else NanCallback_Call Callback (callback ctx_w) [JString (error_message c)])
      in case called of
           None \<Rightarrow> ([Segfault], h)
         | Some (ev, caught) \<Rightarrow>
             (let h1 = delete_ptr h (source_string c);
                  h2 = sass_free_context_wrapper env h1 ctx_w
              in (ev # report_caught caught @ [Release Free_context_wrapper], h2)))"

text \<open>\<open>MakeCallback\<close>, lines 77 to 105.\<close>

definition MakeCallback :: "host \<Rightarrow> heap \<Rightarrow> sass_context_wrapper \<Rightarrow> event list \<times> heap" where
  "MakeCallback env h ctx_w =
     (let c = ctx ctx_w;
          called =
            (if error_status c = 0
             then NanCallback_Call Callback (callback ctx_w) [JString (output_string c)]
             else NanCallback_Call ErrorCallback (errorCallback ctx_w) [JString (error_message c)])
      in case called of
           None \<Rightarrow> ([Segfault], h)
         | Some (ev, caught) \<Rightarrow>
             (let h1 = delete_ptr h (source_string c);
                  h2 = sass_free_context_wrapper env h1 ctx_w
              in (ev # report_caught caught @ [Release Free_context_wrapper], h2)))"

text \<open>\<open>MakeFileCallback\<close>, lines 186 to 222.\<close>

definition MakeFileCallback ::
  "host \<Rightarrow> heap \<Rightarrow> sass_file_context_wrapper \<Rightarrow> event list \<times> heap" where
  "MakeFileCallback env h ctx_w =
     (let c = ctx ctx_w;
          called =
            (if error_status c = 0
             then (let source_map =
                         (if source_comments (options c) = SASS_SOURCE_COMMENTS_MAP
                          then JString (source_map_string c)
                          else JNull)
                   in NanCallback_Call Callback (callback ctx_w)
                        [JString (output_string c), source_map])
             else NanCallback_Call ErrorCallback (errorCallback ctx_w) [JString (error_message c)])
      in case called of
           None \<Rightarrow> ([Segfault], h)
         | Some (ev, caught) \<Rightarrow>
             (let h1 = delete_ptr h (input_path c);
                  h2 = sass_free_file_context_wrapper env h1 ctx_w
              in (ev # report_caught caught @ [Release Free_file_context_wrapper], h2)))"

subsection \<open>Workers\<close>

definition WorkOnContext :: "host \<Rightarrow> heap \<Rightarrow> sass_context_wrapper \<Rightarrow> sass_context_wrapper" where
  "WorkOnContext env h ctx_w = ctx_w\<lparr>ctx := sass_compile env h (ctx ctx_w)\<rparr>"

definition WorkOnFileContext ::
  "host \<Rightarrow> heap \<Rightarrow> sass_file_context_wrapper \<Rightarrow> sass_file_context_wrapper" where
  "WorkOnFileContext env h ctx_w = ctx_w\<lparr>ctx := sass_compile_file env h (ctx ctx_w)\<rparr>"

subsection \<open>Asynchronous entry points\<close>

text \<open>
  What an asynchronous entry point leaves behind: how it ended, the wrapper that
  \<open>uv_queue_work\<close> accepted (if it did) and the store at that moment.
  \<open>assert(status == 0)\<close> aborts the process when assertions are compiled in; the
  destructors of the \<open>AsciiValue\<close> locals run on the normal return only, last
  constructed first.
\<close>

record 'w entry_result =
  ret :: outcome
  queued :: "'w option"
  mem :: heap

text \<open>Lines 71 to 74, 131 to 134 and 253 to 256: the status of \<open>uv_queue_work\<close>, the
  assertion and \<open>NanReturnUndefined\<close>. \<open>locals\<close> are the buffers of the \<open>AsciiValue\<close>
  locals, in the order their destructors run.\<close>

definition after_queue ::
  "host \<Rightarrow> heap \<Rightarrow> 'w \<Rightarrow> addr list \<Rightarrow> 'w entry_result" where
  "after_queue env h ctx_w locals =
     (let status = queue_status env
      in if assertions env \<and> status \<noteq> 0
         then \<lparr>ret = Aborted, queued = None, mem = h\<rparr>
         else \<lparr>ret = Returned JUndefined,
               queued = (if status = 0 then Some ctx_w else None),
               mem = foldl AsciiValue_destroy h locals\<rparr>)"

text \<open>\<open>OldRender\<close>, lines 49 to 75: arguments source, callback, include paths, output
  style, source comments.\<close>

definition OldRender :: "host \<Rightarrow> heap \<Rightarrow> call_args \<Rightarrow> sass_context_wrapper entry_result" where
  "OldRender env h0 args =
     (let c = sass_new_context env;
          ctx_w = sass_new_context_wrapper env;
          (astr, h) = AsciiValue h0 (a_source args);
          (bstr, h) = AsciiValue h (a_include_paths args);
          (source, h) = new_chars h (strlen (a_source args) + 1);
          h = strcpy h source (a_source args);
          c = c\<lparr>source_string := Some source\<rparr>;
          (p, h) = new_chars h (strlen (a_include_paths args) + 1);
          c = c\<lparr>options := (options c)\<lparr>include_paths := Some p\<rparr>\<rparr>;
          (q, h) = new_chars h 0;
          c = c\<lparr>options := (options c)\<lparr>image_path := Some q\<rparr>\<rparr>;
          c = c\<lparr>options := (options c)\<lparr>include_paths := Some bstr\<rparr>\<rparr>;
          c = c\<lparr>options := (options c)\<lparr>output_style := a_output_style args\<rparr>\<rparr>;
          c = c\<lparr>options := (options c)\<lparr>source_comments := a_source_comments args\<rparr>\<rparr>;
          ctx_w = ctx_w\<lparr>ctx := c\<rparr>;
          ctx_w = ctx_w\<lparr>callback := Some (a_callback args)\<rparr>
      in after_queue env h ctx_w [bstr, astr])"

text \<open>\<open>Render\<close>, lines 107 to 135: arguments source, callback, error callback, include
  paths, output style, source comments.\<close>

definition Render :: "host \<Rightarrow> heap \<Rightarrow> call_args \<Rightarrow> sass_context_wrapper entry_result" where
  "Render env h0 args =
     (let c = sass_new_context env;
          ctx_w = sass_new_context_wrapper env;
          (astr, h) = AsciiValue h0 (a_source args);
          (bstr, h) = AsciiValue h (a_include_paths args);
          (source, h) = new_chars h (strlen (a_source args) + 1);
          h = strcpy h source (a_source args);
          c = c\<lparr>source_string := Some source\<rparr>;
          (p, h) = new_chars h (strlen (a_include_paths args) + 1);
          c = c\<lparr>options := (options c)\<lparr>include_paths := Some p\<rparr>\<rparr>;
          c = c\<lparr>options := (options c)\<lparr>include_paths := Some bstr\<rparr>\<rparr>;
          (q, h) = new_chars h 0;
          c = c\<lparr>options := (options c)\<lparr>image_path := Some q\<rparr>\<rparr>;
          c = c\<lparr>options := (options c)\<lparr>output_style := a_output_style args\<rparr>\<rparr>;
          c = c\<lparr>options := (options c)\<lparr>source_comments := a_source_comments args\<rparr>\<rparr>;
          ctx_w = ctx_w\<lparr>ctx := c\<rparr>;
          ctx_w = ctx_w\<lparr>callback := Some (a_callback args)\<rparr>;
          ctx_w = ctx_w\<lparr>errorCallback := Some (a_errorCallback args)\<rparr>
      in after_queue env h ctx_w [bstr, astr])"

text \<open>\<open>RenderFile\<close>, lines 224 to 257: arguments path, callback, error callback, include
  paths, output style, source comments, source map path.\<close>

definition RenderFile ::
  "host \<Rightarrow> heap \<Rightarrow> call_args \<Rightarrow> sass_file_context_wrapper entry_result" where
  "RenderFile env h0 args =
     (let c = sass_new_file_context env;
          ctx_w = sass_new_file_context_wrapper env;
          (astr, h) = AsciiValue h0 (a_source args);
          (bstr, h) = AsciiValue h (a_include_paths args);
          (cstr, h) = AsciiValue h (a_source_map_path args);
          (filename, h) = new_chars h (strlen (a_source args) + 1);
          h = strcpy h filename (a_source args);
          c = c\<lparr>input_path := Some filename\<rparr>;
          (p, h) = new_chars h (strlen (a_include_paths args) + 1);
          c = c\<lparr>options := (options c)\<lparr>include_paths := Some p\<rparr>\<rparr>;
          c = c\<lparr>options := (options c)\<lparr>include_paths := Some bstr\<rparr>\<rparr>;
          c = c\<lparr>options := (options c)\<lparr>output_style := a_output_style args\<rparr>\<rparr>;
          (q, h) = new_chars h 0;
          c = c\<lparr>options := (options c)\<lparr>image_path := Some q\<rparr>\<rparr>;
          c = c\<lparr>options := (options c)\<lparr>source_comments := a_source_comments args\<rparr>\<rparr>;
          (c, h) =
            (if source_comments (options c) = SASS_SOURCE_COMMENTS_MAP
             then (let (m, h') = new_chars h (strlen (a_source_map_path args) + 1)
                   in (c\<lparr>source_map_file := Some m\<rparr>, strcpy h' m (a_source_map_path args)))
             else (c, h));
          ctx_w = ctx_w\<lparr>ctx := c\<rparr>;
          ctx_w = ctx_w\<lparr>callback := Some (a_callback args)\<rparr>;
          ctx_w = ctx_w\<lparr>errorCallback := Some (a_errorCallback args)\<rparr>
      in after_queue env h ctx_w [cstr, bstr, astr])"

subsection \<open>An asynchronous request from the call to the end of its completion handler\<close>

text \<open>
  The completion handler runs on the loop thread, after the entry point has returned to
  the loop and the worker has run \<open>sass_compile\<close> on the queued wrapper. The worker
  is taken to run after the return as well. A request that was not queued has neither.
\<close>

record ('w, 'r) async_run =
  returned :: outcome
  submitted :: "'w option"
  mem_at_return :: heap
  worker_saw :: "'r option"
  finished :: "'w option"
  events :: "event list"
  mem_end :: heap

definition not_queued :: "'w entry_result \<Rightarrow> ('w, 'r) async_run" where
  "not_queued e =
     \<lparr>returned = ret e, submitted = None, mem_at_return = mem e, worker_saw = None,
      finished = None, events = [], mem_end = mem e\<rparr>"

definition async_OldRender ::
  "host \<Rightarrow> heap \<Rightarrow> call_args \<Rightarrow> (sass_context_wrapper, request) async_run" where
  "async_OldRender env h0 args =
     (let e = OldRender env h0 args
      in case queued e of
           None \<Rightarrow> not_queued e
         | Some w \<Rightarrow>
             (let w' = WorkOnContext env (mem e) w;
                  (evs, h) = MakeOldCallback env (mem e) w'
              in \<lparr>returned = ret e, submitted = Some w, mem_at_return = mem e,
                  worker_saw = Some (request_of (mem e) (ctx w)),
                  finished = Some w', events = evs, mem_end = h\<rparr>))"

definition async_Render ::
  "host \<Rightarrow> heap \<Rightarrow> call_args \<Rightarrow> (sass_context_wrapper, request) async_run" where
  "async_Render env h0 args =
     (let e = Render env h0 args
      in case queued e of
           None \<Rightarrow> not_queued e
         | Some w \<Rightarrow>
             (let w' = WorkOnContext env (mem e) w;
                  (evs, h) = MakeCallback env (mem e) w'
              in \<lparr>returned = ret e, submitted = Some w, mem_at_return = mem e,
                  worker_saw = Some (request_of (mem e) (ctx w)),
                  finished = Some w', events = evs, mem_end = h\<rparr>))"

definition async_RenderFile ::
  "host \<Rightarrow> heap \<Rightarrow> call_args \<Rightarrow> (sass_file_context_wrapper, file_request) async_run" where
  "async_RenderFile env h0 args =
     (let e = RenderFile env h0 args
      in case queued e of
           None \<Rightarrow> not_queued e
         | Some w \<Rightarrow>
             (let w' = WorkOnFileContext env (mem e) w;
                  (evs, h) = MakeFileCallback env (mem e) w'
              in \<lparr>returned = ret e, submitted = Some w, mem_at_return = mem e,
                  worker_saw = Some (file_request_of (mem e) (ctx w)),
                  finished = Some w', events = evs, mem_end = h\<rparr>))"

text \<open>The callback invocations of a trace, in order.\<close>

fun calls :: "event list \<Rightarrow> (slot \<times> js_value list) list" where
  "calls [] = []"
| "calls (Call sl argv # es) = (sl, argv) # calls es"
| "calls (e # es) = calls es"

subsection \<open>Synchronous entry points\<close>

text \<open>
  A synchronous call: how it ended, the request the compiler was called with, the
  release helpers it called and the store once the \<open>AsciiValue\<close> locals are gone.
  \<open>NanReturnValue\<close> returns from the entry point; \<open>NanThrowError\<close> followed by
  \<open>NanReturnUndefined\<close> leaves the caller with a raised error. The destructors of the
  locals run before the caller has either, so the call ends undefined when one of its
  releases was a fault.
\<close>

record 'r sync_run =
  s_ret :: outcome
  compiler_saw :: 'r
  s_events :: "event list"
  s_mem :: heap

text \<open>\<open>RenderSync\<close>, lines 137 to 174: arguments source, include paths, output style,
  source comments.\<close>

definition RenderSync :: "host \<Rightarrow> heap \<Rightarrow> call_args \<Rightarrow> request sync_run" where
  "RenderSync env h0 args =
     (let c = sass_new_context env;
          (astr, h) = AsciiValue h0 (a_source args);
          (bstr, h) = AsciiValue h (a_include_paths args);
          (source, h) = new_chars h (strlen (a_source args) + 1);
          h = strcpy h source (a_source args);
          c = c\<lparr>source_string := Some source\<rparr>;
          (p, h) = new_chars h (strlen (a_include_paths args) + 1);
          c = c\<lparr>options := (options c)\<lparr>include_paths := Some p\<rparr>\<rparr>;
          c = c\<lparr>options := (options c)\<lparr>include_paths := Some bstr\<rparr>\<rparr>;
          c = c\<lparr>options := (options c)\<lparr>output_style := a_output_style args\<rparr>\<rparr>;
          (q, h) = new_chars h 0;
          c = c\<lparr>options := (options c)\<lparr>image_path := Some q\<rparr>\<rparr>;
          c = c\<lparr>options := (options c)\<lparr>source_comments := a_source_comments args\<rparr>\<rparr>;
          seen = request_of h c;
          c = sass_compile env h c;
          h = delete_ptr h (source_string c);
          c = c\<lparr>source_string := None\<rparr>;
          h = delete_ptr h (include_paths (options c));
          c = c\<lparr>options := (options c)\<lparr>include_paths := None\<rparr>\<rparr>;
          h = delete_ptr h (image_path (options c));
          c = c\<lparr>options := (options c)\<lparr>image_path := None\<rparr>\<rparr>
      in if error_status c = 0
         then (let output = JString (output_string c);
                   h = sass_free_context env h c;
                   h = foldl AsciiValue_destroy h [bstr, astr]
               in \<lparr>s_ret = at_return h0 h (Returned output), compiler_saw = seen,
                   s_events = [Release Free_context], s_mem = h\<rparr>)
         else (let error = error_message c;
                   h = sass_free_context env h c;
                   h = foldl AsciiValue_destroy h [bstr, astr]
               in \<lparr>s_ret = at_return h0 h (Threw error), compiler_saw = seen,
                   s_events = [Release Free_context], s_mem = h\<rparr>))"

text \<open>\<open>RenderFileSync\<close>, lines 259 to 296: arguments path, include paths, output style,
  source comments.\<close>

definition RenderFileSync :: "host \<Rightarrow> heap \<Rightarrow> call_args \<Rightarrow> file_request sync_run" where
  "RenderFileSync env h0 args =
     (let c = sass_new_file_context env;
          (astr, h) = AsciiValue h0 (a_source args);
          (bstr, h) = AsciiValue h (a_include_paths args);
          (filename, h) = new_chars h (strlen (a_source args) + 1);
          h = strcpy h filename (a_source args);
          c = c\<lparr>input_path := Some filename\<rparr>;
          (p, h) = new_chars h (strlen (a_include_paths args) + 1);
          c = c\<lparr>options := (options c)\<lparr>include_paths := Some p\<rparr>\<rparr>;
          c = c\<lparr>options := (options c)\<lparr>include_paths := Some bstr\<rparr>\<rparr>;
          (q, h) = new_chars h 0;
          c = c\<lparr>options := (options c)\<lparr>image_path := Some q\<rparr>\<rparr>;
          c = c\<lparr>options := (options c)\<lparr>output_style := a_output_style args\<rparr>\<rparr>;
          c = c\<lparr>options := (options c)\<lparr>source_comments := a_source_comments args\<rparr>\<rparr>;
          seen = file_request_of h c;
          c = sass_compile_file env h c;
          h = delete_ptr h (input_path c);
          c = c\<lparr>input_path := None\<rparr>;
          h = delete_ptr h (include_paths (options c));
          c = c\<lparr>options := (options c)\<lparr>include_paths := None\<rparr>\<rparr>;
          h = delete_ptr h (image_path (options c));
          c = c\<lparr>options := (options c)\<lparr>image_path := None\<rparr>\<rparr>
      in if error_status c = 0
         then (let output = JString (output_string c);
                   h = sass_free_file_context env h c;
                   h = foldl AsciiValue_destroy h [bstr, astr]
               in \<lparr>s_ret = at_return h0 h (Returned output), compiler_saw = seen,
                   s_events = [Release Free_file_context], s_mem = h\<rparr>)
         else (let error = error_message c;
                   h = sass_free_file_context env h c;
                   h = foldl AsciiValue_destroy h [bstr, astr]
               in \<lparr>s_ret = at_return h0 h (Threw error), compiler_saw = seen,
                   s_events = [Release Free_file_context], s_mem = h\<rparr>))"

subsection \<open>Reading an argument list\<close>

text \<open>The argument a callee finds at position \<open>i\<close> of a call: \<open>None\<close> when fewer
  arguments were passed.\<close>

definition argument :: "js_value list \<Rightarrow> nat \<Rightarrow> js_value option" where
  "argument argv i = (if i < length argv then Some (argv ! i) else None)"

subsection \<open>An example host\<close>

text \<open>
  A host for concrete runs: allocators that hand out zeroed structs, a work queue that
  accepts the request, assertions compiled in, release helpers that leave the three
  input buffers alone, and a compiler that rejects the source \<open>a{\<close>, accepts every other
  one and writes a source map in Map mode.
\<close>

definition example_options :: sass_options where
  "example_options =
     \<lparr>output_style = 0, source_comments = 0, include_paths = None, image_path = None\<rparr>"

definition example_context :: sass_context where
  "example_context =
     \<lparr>output_string = [], options = example_options, error_status = 0, error_message = [],
      source_string = None\<rparr>"

definition example_file_context :: sass_file_context where
  "example_file_context =
     \<lparr>output_string = [], options = example_options, error_status = 0, error_message = [],
      input_path = None, source_map_string = [], source_map_file = None\<rparr>"

definition example_compile :: "'a request_scheme \<Rightarrow> result" where
  "example_compile rq =
     (if req_source rq = Some ''a{''
      then \<lparr>res_error_status = 1, res_output_string = [],
            res_error_message = ''invalid css'', res_source_map_string = []\<rparr>
      else \<lparr>res_error_status = 0, res_output_string = ''a {}'',
            res_error_message = [],
            res_source_map_string =
              (if req_source_comments rq = SASS_SOURCE_COMMENTS_MAP then ''{}'' else [])\<rparr>)"


text \<open>A compiler at work on a source that imports a file from the include paths: it
  succeeds when it is given include paths.\<close>

definition example_compile_import :: "'a request_scheme \<Rightarrow> result" where
  "example_compile_import rq =
     (if req_include_paths rq = None
      then \<lparr>res_error_status = 1, res_output_string = [],
            res_error_message = ''not found'', res_source_map_string = []\<rparr>
      else \<lparr>res_error_status = 0, res_output_string = ''found'',
            res_error_message = [], res_source_map_string = []\<rparr>)"

definition example_host :: host where
  "example_host =
     \<lparr>sass_new_context = example_context,
      sass_new_file_context = example_file_context,
      sass_new_context_wrapper =
        \<lparr>ctx = example_context, callback = None, errorCallback = None\<rparr>,
      sass_new_file_context_wrapper =
        \<lparr>ctx = example_file_context, callback = None, errorCallback = None\<rparr>,
      compile = example_compile,
      compile_file = example_compile,
      queue_status = 0,
      assertions = True,
      helper_frees = (\<lambda>helper. [])\<rparr>"

definition example_args :: call_args where
  "example_args =
     \<lparr>a_source = ''a{}'',
      a_callback = (\<lambda>argv. False),
      a_errorCallback = (\<lambda>argv. False),
      a_include_paths = ''lib'',
      a_output_style = 0,
      a_source_comments = 0,
      a_source_map_path = ''out.map''\<rparr>"

section \<open>Evaluating the embedding\<close>

lemmas build_defs = AsciiValue_def new_chars_def strcpy_def delete_ptr_def

lemmas store_defs = build_defs AsciiValue_destroy_def

subsection \<open>Releases\<close>

lemma release_all_Nil [simp]: "release_all h [] = h"
  by (simp add: release_all_def)

lemma release_all_Cons [simp]: "release_all h (p # ps) = release_all (delete_ptr h p) ps"
  by (simp add: release_all_def)

lemma cells_delete_ptr_other: "p \<noteq> Some a \<Longrightarrow> cells (delete_ptr h p) a = cells h a"
  by (cases p) (auto simp: delete_ptr_def)

lemma count_delete_ptr_other:
  "p \<noteq> Some a \<Longrightarrow> count_list (deletes (delete_ptr h p)) a = count_list (deletes h) a"
  by (cases p) (auto simp: delete_ptr_def)

lemma cells_release_all_other: "Some a \<notin> set ps \<Longrightarrow> cells (release_all h ps) a = cells h a"
  by (induction ps arbitrary: h) (auto simp: cells_delete_ptr_other)

lemma count_release_all_other:
  "Some a \<notin> set ps \<Longrightarrow> count_list (deletes (release_all h ps)) a = count_list (deletes h) a"
  by (induction ps arbitrary: h) (auto simp: count_delete_ptr_other)

lemma release_all_NULL: "set ps \<subseteq> {None} \<Longrightarrow> release_all h ps = h"
  by (induction ps arbitrary: h) (auto simp: delete_ptr_def)

text \<open>Releases only add to the faults, and a released buffer stays released.\<close>

lemma faults_delete_ptr_mono: "length (faults h) \<le> length (faults (delete_ptr h p))"
  by (cases p) (simp_all add: delete_ptr_def)

lemma faults_release_all_mono: "length (faults h) \<le> length (faults (release_all h ps))"
proof (induction ps arbitrary: h)
  case Nil
  show ?case by simp
next
  case (Cons p ps)
  have "length (faults h) \<le> length (faults (delete_ptr h p))"
    by (rule faults_delete_ptr_mono)
  also have "\<dots> \<le> length (faults (release_all (delete_ptr h p) ps))"
    by (rule Cons.IH)
  finally show ?case by simp
qed

lemma cells_None_delete_ptr: "cells h a = None \<Longrightarrow> cells (delete_ptr h p) a = None"
  by (cases p) (simp_all add: delete_ptr_def)

lemma cells_None_release_all: "cells h a = None \<Longrightarrow> cells (release_all h ps) a = None"
  by (induction ps arbitrary: h) (simp_all add: cells_None_delete_ptr)

lemma faults_destroy_released:
  "cells h a = None \<Longrightarrow> length (faults (AsciiValue_destroy h a)) = Suc (length (faults h))"
  by (simp add: AsciiValue_destroy_def delete_ptr_def)

lemma context_ptr_cases:
  "context_ptr c f = None \<or> context_ptr c f = source_string c
     \<or> context_ptr c f = include_paths (options c) \<or> context_ptr c f = image_path (options c)"
  by (cases f) (simp_all add: context_ptr_def)

lemma sass_free_context_NULL:
  assumes "source_string c = None" "include_paths (options c) = None" "image_path (options c) = None"
  shows "sass_free_context env h c = h"
proof -
  have "context_ptr c f = None" for f
    using assms context_ptr_cases [of c f] by auto
  then show ?thesis
    by (auto simp: sass_free_context_def intro!: release_all_NULL)
qed

subsection \<open>After \<open>uv_queue_work\<close>\<close>

lemma ret_after_queue:
  "ret (after_queue env h w ls) =
     (if assertions env \<and> queue_status env \<noteq> 0 then Aborted else Returned JUndefined)"
  by (simp add: after_queue_def Let_def)

lemma queued_after_queue:
  "queued (after_queue env h w ls) = (if queue_status env = 0 then Some w else None)"
  by (simp add: after_queue_def Let_def)

lemma mem_after_queue:
  "mem (after_queue env h w ls) =
     (if assertions env \<and> queue_status env \<noteq> 0 then h else foldl AsciiValue_destroy h ls)"
  by (simp add: after_queue_def Let_def)

lemmas after_queue_sel = ret_after_queue queued_after_queue mem_after_queue



lemma c_string_idem [simp]: "c_string (c_string s) = c_string s"
  by (simp add: c_string_def)

lemma c_string_Nil [simp]: "c_string [] = []"
  by (simp add: c_string_def)

subsection \<open>Entry points, evaluated statement by statement\<close>

text \<open>Each bound value is simplified before it is substituted into the rest of the body.\<close>

lemmas by_value = let_weak_cong prod.case_cong_weak

lemma queued_OldRender:
  "queued (OldRender env h args) =
     (if queue_status env = 0
      then Some ((sass_new_context_wrapper env)
        \<lparr>ctx := (sass_new_context env)
            \<lparr>source_string := Some (Suc (Suc (brk h))),
             options := (options (sass_new_context env))
               \<lparr>image_path := Some (Suc (Suc (Suc (Suc (brk h))))),
                include_paths := Some (Suc (brk h)),
                output_style := a_output_style args,
                source_comments := a_source_comments args\<rparr>\<rparr>,
         callback := Some (a_callback args)\<rparr>)
      else None)"
  by (simp add: OldRender_def store_defs Let_def after_queue_sel
        split del: if_split cong del: if_weak_cong cong: by_value)

lemma queued_Render:
  "queued (Render env h args) =
     (if queue_status env = 0
      then Some ((sass_new_context_wrapper env)
        \<lparr>ctx := (sass_new_context env)
            \<lparr>source_string := Some (Suc (Suc (brk h))),
             options := (options (sass_new_context env))
               \<lparr>include_paths := Some (Suc (brk h)),
                image_path := Some (Suc (Suc (Suc (Suc (brk h))))),
                output_style := a_output_style args,
                source_comments := a_source_comments args\<rparr>\<rparr>,
         callback := Some (a_callback args),
         errorCallback := Some (a_errorCallback args)\<rparr>)
      else None)"
  by (simp add: Render_def store_defs Let_def after_queue_sel
        split del: if_split cong del: if_weak_cong cong: by_value)

lemma queued_RenderFile_Map:
  "a_source_comments args = SASS_SOURCE_COMMENTS_MAP \<Longrightarrow>
   queued (RenderFile env h args) =
     (if queue_status env = 0
      then Some ((sass_new_file_context_wrapper env)
        \<lparr>ctx := (sass_new_file_context env)
            \<lparr>input_path := Some (Suc (Suc (Suc (brk h)))),
             options := (options (sass_new_file_context env))
               \<lparr>include_paths := Some (Suc (brk h)),
                output_style := a_output_style args,
                image_path := Some (Suc (Suc (Suc (Suc (Suc (brk h)))))),
                source_comments := SASS_SOURCE_COMMENTS_MAP\<rparr>,
             source_map_file := Some (Suc (Suc (Suc (Suc (Suc (Suc (brk h)))))))\<rparr>,
         callback := Some (a_callback args),
         errorCallback := Some (a_errorCallback args)\<rparr>)
      else None)"
  by (simp add: RenderFile_def store_defs Let_def after_queue_sel
        split del: if_split cong del: if_weak_cong cong: by_value)

lemma queued_RenderFile_other:
  "a_source_comments args \<noteq> SASS_SOURCE_COMMENTS_MAP \<Longrightarrow>
   queued (RenderFile env h args) =
     (if queue_status env = 0
      then Some ((sass_new_file_context_wrapper env)
        \<lparr>ctx := (sass_new_file_context env)
            \<lparr>input_path := Some (Suc (Suc (Suc (brk h)))),
             options := (options (sass_new_file_context env))
               \<lparr>include_paths := Some (Suc (brk h)),
                output_style := a_output_style args,
                image_path := Some (Suc (Suc (Suc (Suc (Suc (brk h)))))),
                source_comments := a_source_comments args\<rparr>\<rparr>,
         callback := Some (a_callback args),
         errorCallback := Some (a_errorCallback args)\<rparr>)
      else None)"
  by (simp add: RenderFile_def store_defs Let_def after_queue_sel
        split del: if_split cong del: if_weak_cong cong: by_value)

lemma ret_OldRender:
  "ret (OldRender env h args) =
     (if assertions env \<and> queue_status env \<noteq> 0 then Aborted else Returned JUndefined)"
  by (simp add: OldRender_def store_defs Let_def after_queue_sel
        split del: if_split cong del: if_weak_cong cong: by_value)

lemma ret_Render:
  "ret (Render env h args) =
     (if assertions env \<and> queue_status env \<noteq> 0 then Aborted else Returned JUndefined)"
  by (simp add: Render_def store_defs Let_def after_queue_sel
        split del: if_split cong del: if_weak_cong cong: by_value)

lemma ret_RenderFile:
  "ret (RenderFile env h args) =
     (if assertions env \<and> queue_status env \<noteq> 0 then Aborted else Returned JUndefined)"
  by (cases "a_source_comments args = SASS_SOURCE_COMMENTS_MAP")
     (simp_all add: RenderFile_def store_defs Let_def after_queue_sel
        split del: if_split cong del: if_weak_cong cong: by_value)

lemma mem_OldRender:
  "queue_status env = 0 \<Longrightarrow>
   mem (OldRender env h args) =
     h\<lparr>brk := Suc (Suc (Suc (Suc (Suc (brk h))))),
       cells := (cells h)
         (Suc (Suc (brk h)) \<mapsto> (Suc (strlen (a_source args)), c_string (a_source args)),
          Suc (Suc (Suc (brk h))) \<mapsto> (Suc (strlen (a_include_paths args)), []),
          Suc (Suc (Suc (Suc (brk h)))) \<mapsto> (0, []),
          Suc (brk h) := None, brk h := None),
       deletes := deletes h @ [Suc (brk h), brk h]\<rparr>"
  by (simp add: OldRender_def store_defs Let_def after_queue_sel
        split del: if_split cong del: if_weak_cong cong: by_value)

lemma mem_Render:
  "queue_status env = 0 \<Longrightarrow>
   mem (Render env h args) =
     h\<lparr>brk := Suc (Suc (Suc (Suc (Suc (brk h))))),
       cells := (cells h)
         (Suc (Suc (brk h)) \<mapsto> (Suc (strlen (a_source args)), c_string (a_source args)),
          Suc (Suc (Suc (brk h))) \<mapsto> (Suc (strlen (a_include_paths args)), []),
          Suc (Suc (Suc (Suc (brk h)))) \<mapsto> (0, []),
          Suc (brk h) := None, brk h := None),
       deletes := deletes h @ [Suc (brk h), brk h]\<rparr>"
  by (simp add: Render_def store_defs Let_def after_queue_sel
        split del: if_split cong del: if_weak_cong cong: by_value)

lemma mem_RenderFile_Map:
  "queue_status env = 0 \<Longrightarrow> a_source_comments args = SASS_SOURCE_COMMENTS_MAP \<Longrightarrow>
   mem (RenderFile env h args) =
     h\<lparr>brk := Suc (Suc (Suc (Suc (Suc (Suc (Suc (brk h))))))),
       cells := (cells h)
         (Suc (Suc (Suc (brk h))) \<mapsto> (Suc (strlen (a_source args)), c_string (a_source args)),
          Suc (Suc (Suc (Suc (brk h)))) \<mapsto> (Suc (strlen (a_include_paths args)), []),
          Suc (Suc (Suc (Suc (Suc (brk h))))) \<mapsto> (0, []),
          Suc (Suc (Suc (Suc (Suc (Suc (brk h)))))) \<mapsto>
            (Suc (strlen (a_source_map_path args)), c_string (a_source_map_path args)),
          Suc (Suc (brk h)) := None, Suc (brk h) := None, brk h := None),
       deletes := deletes h @ [Suc (Suc (brk h)), Suc (brk h), brk h]\<rparr>"
  by (simp add: RenderFile_def store_defs Let_def after_queue_sel
        split del: if_split cong del: if_weak_cong cong: by_value)

lemma mem_RenderFile_other:
  "queue_status env = 0 \<Longrightarrow> a_source_comments args \<noteq> SASS_SOURCE_COMMENTS_MAP \<Longrightarrow>
   mem (RenderFile env h args) =
     h\<lparr>brk := Suc (Suc (Suc (Suc (Suc (Suc (brk h)))))),
       cells := (cells h)
         (Suc (Suc (Suc (brk h))) \<mapsto> (Suc (strlen (a_source args)), c_string (a_source args)),
          Suc (Suc (Suc (Suc (brk h)))) \<mapsto> (Suc (strlen (a_include_paths args)), []),
          Suc (Suc (Suc (Suc (Suc (brk h))))) \<mapsto> (0, []),
          Suc (Suc (brk h)) := None, Suc (brk h) := None, brk h := None),
       deletes := deletes h @ [Suc (Suc (brk h)), Suc (brk h), brk h]\<rparr>"
  by (simp add: RenderFile_def store_defs Let_def after_queue_sel
        split del: if_split cong del: if_weak_cong cong: by_value)


text \<open>The asynchronous entry points release live buffers only.\<close>

lemma faults_OldRender: "queue_status env = 0 \<Longrightarrow> faults (mem (OldRender env h args)) = faults h"
  by (simp add: mem_OldRender)

lemma faults_Render: "queue_status env = 0 \<Longrightarrow> faults (mem (Render env h args)) = faults h"
  by (simp add: mem_Render)

lemma faults_RenderFile: "queue_status env = 0 \<Longrightarrow> faults (mem (RenderFile env h args)) = faults h"
  by (cases "a_source_comments args = SASS_SOURCE_COMMENTS_MAP")
     (simp_all add: mem_RenderFile_Map mem_RenderFile_other)

subsection \<open>Synchronous entry points\<close>

lemma sass_compile_sel:
  "source_string (sass_compile env h c) = source_string c"
  "options (sass_compile env h c) = options c"
  "error_status (sass_compile env h c) = res_error_status (compile env (request_of h c))"
  "output_string (sass_compile env h c) = res_output_string (compile env (request_of h c))"
  "error_message (sass_compile env h c) = res_error_message (compile env (request_of h c))"
  by (simp_all add: sass_compile_def Let_def)

lemma sass_compile_file_sel:
  "input_path (sass_compile_file env h c) = input_path c"
  "source_map_file (sass_compile_file env h c) = source_map_file c"
  "options (sass_compile_file env h c) = options c"
  "error_status (sass_compile_file env h c) =
     res_error_status (compile_file env (file_request_of h c))"
  "output_string (sass_compile_file env h c) =
     res_output_string (compile_file env (file_request_of h c))"
  "error_message (sass_compile_file env h c) =
     res_error_message (compile_file env (file_request_of h c))"
  "source_map_string (sass_compile_file env h c) =
     res_source_map_string (compile_file env (file_request_of h c))"
  by (simp_all add: sass_compile_file_def Let_def)

lemmas sync_sel_if =
  if_distrib [of s_ret] if_distrib [of compiler_saw] if_distrib [of s_events] if_distrib [of s_mem]

lemma compiler_saw_RenderSync:
  "compiler_saw (RenderSync env h args) =
     \<lparr>req_source = Some (c_string (a_source args)),
      req_include_paths = Some (c_string (a_include_paths args)),
      req_image_path = Some [],
      req_output_style = a_output_style args,
      req_source_comments = a_source_comments args\<rparr>"
  by (simp add: RenderSync_def store_defs Let_def sass_compile_def sass_free_context_NULL
        request_of_def read_str_def sync_sel_if
        split del: if_split cong del: if_weak_cong cong: by_value)

lemma s_events_RenderSync: "s_events (RenderSync env h args) = [Release Free_context]"
  by (simp add: RenderSync_def store_defs Let_def sass_compile_def sass_free_context_NULL
        sync_sel_if
        split del: if_split cong del: if_weak_cong cong: by_value)

lemma s_mem_RenderSync:
  "s_mem (RenderSync env h args) =
     h\<lparr>brk := Suc (Suc (Suc (Suc (Suc (brk h))))),
       cells := (cells h)
         (Suc (Suc (Suc (brk h))) \<mapsto> (Suc (strlen (a_include_paths args)), []),
          Suc (Suc (brk h)) := None, Suc (brk h) := None,
          Suc (Suc (Suc (Suc (brk h)))) := None, brk h := None),
       deletes := deletes h @
         [Suc (Suc (brk h)), Suc (brk h), Suc (Suc (Suc (Suc (brk h)))), Suc (brk h), brk h],
       faults := faults h @ [Suc (brk h)]\<rparr>"
  by (simp add: RenderSync_def store_defs Let_def sass_compile_def sass_free_context_NULL
        sync_sel_if
        split del: if_split cong del: if_weak_cong cong: by_value)

text \<open>Lines 163 to 173 compute a value or an error from the compiler's result; the caller
  has it only if no release of the call was a fault.\<close>

lemma s_ret_RenderSync_computed:
  "s_ret (RenderSync env h args) =
     at_return h (s_mem (RenderSync env h args))
       (if res_error_status (compile env (compiler_saw (RenderSync env h args))) = 0
        then Returned (JString
               (res_output_string (compile env (compiler_saw (RenderSync env h args)))))
        else Threw (res_error_message (compile env (compiler_saw (RenderSync env h args)))))"
  unfolding compiler_saw_RenderSync s_mem_RenderSync
  by (simp add: RenderSync_def store_defs Let_def sass_compile_def sass_free_context_NULL
        request_of_def read_str_def sync_sel_if if_distrib [of "at_return a b" for a b]
        split del: if_split cong del: if_weak_cong cong: by_value)

lemma s_ret_RenderSync: "s_ret (RenderSync env h args) = Undefined"
  by (simp add: s_ret_RenderSync_computed s_mem_RenderSync at_return_def)

lemma compiler_saw_RenderFileSync:
  "compiler_saw (RenderFileSync env h args) =
     file_request_of
       (h\<lparr>cells := (cells h)
           (brk h \<mapsto> (Suc (length (a_source args)), a_source args),
            Suc (brk h) \<mapsto> (Suc (length (a_include_paths args)), a_include_paths args),
            Suc (Suc (brk h)) \<mapsto> (Suc (strlen (a_source args)), c_string (a_source args)),
            Suc (Suc (Suc (brk h))) \<mapsto> (Suc (strlen (a_include_paths args)), []),
            Suc (Suc (Suc (Suc (brk h)))) \<mapsto> (0, [])),
          brk := Suc (Suc (Suc (Suc (Suc (brk h)))))\<rparr>)
       ((sass_new_file_context env)
          \<lparr>input_path := Some (Suc (Suc (brk h))),
           options := (options (sass_new_file_context env))
             \<lparr>include_paths := Some (Suc (brk h)),
              image_path := Some (Suc (Suc (Suc (Suc (brk h))))),
              output_style := a_output_style args,
              source_comments := a_source_comments args\<rparr>\<rparr>)"
  by (simp add: RenderFileSync_def build_defs Let_def sass_compile_file_sel sync_sel_if
        split del: if_split cong del: if_weak_cong cong: by_value)

lemma compiler_saw_RenderFileSync_fields:
  "req_source (compiler_saw (RenderFileSync env h args)) = Some (c_string (a_source args))"
  "req_include_paths (compiler_saw (RenderFileSync env h args)) =
     Some (c_string (a_include_paths args))"
  "req_image_path (compiler_saw (RenderFileSync env h args)) = Some []"
  "req_output_style (compiler_saw (RenderFileSync env h args)) = a_output_style args"
  "req_source_comments (compiler_saw (RenderFileSync env h args)) = a_source_comments args"
  by (simp_all add: compiler_saw_RenderFileSync file_request_of_def read_str_def)

lemma s_ret_RenderFileSync_computed:
  "s_ret (RenderFileSync env h args) =
     at_return h (s_mem (RenderFileSync env h args))
       (if res_error_status (compile_file env (compiler_saw (RenderFileSync env h args))) = 0
        then Returned (JString
               (res_output_string (compile_file env (compiler_saw (RenderFileSync env h args)))))
        else Threw (res_error_message
               (compile_file env (compiler_saw (RenderFileSync env h args)))))"
  unfolding compiler_saw_RenderFileSync
  by (simp add: RenderFileSync_def build_defs Let_def sass_compile_file_sel sync_sel_if
        if_distrib [of "at_return a b" for a b]
        split del: if_split cong del: if_weak_cong cong: by_value)

text \<open>The store at the end of \<open>RenderFileSync\<close>: line 280 and the destructor of \<open>bstr\<close>
  release the buffer at \<open>Suc (brk h)\<close>, whatever the release helper freed in between.\<close>

lemma s_mem_RenderFileSync:
  "\<exists>c. s_mem (RenderFileSync env h args) =
     AsciiValue_destroy
       (AsciiValue_destroy
          (sass_free_file_context env
             (h\<lparr>brk := Suc (Suc (Suc (Suc (Suc (brk h))))),
                cells := (cells h)
                  (brk h \<mapsto> (Suc (length (a_source args)), a_source args),
                   Suc (Suc (Suc (brk h))) \<mapsto> (Suc (strlen (a_include_paths args)), []),
                   Suc (Suc (brk h)) := None, Suc (brk h) := None,
                   Suc (Suc (Suc (Suc (brk h)))) := None),
                deletes := deletes h @
                  [Suc (Suc (brk h)), Suc (brk h), Suc (Suc (Suc (Suc (brk h))))]\<rparr>) c)
          (Suc (brk h)))
       (brk h)"
  by (rule exI)
     (simp add: RenderFileSync_def build_defs Let_def sass_compile_file_sel sync_sel_if
        split del: if_split cong del: if_weak_cong cong: by_value)

lemma s_ret_RenderFileSync: "s_ret (RenderFileSync env h args) = Undefined"
proof -
  obtain c where m: "s_mem (RenderFileSync env h args) =
     AsciiValue_destroy
       (AsciiValue_destroy
          (sass_free_file_context env
             (h\<lparr>brk := Suc (Suc (Suc (Suc (Suc (brk h))))),
                cells := (cells h)
                  (brk h \<mapsto> (Suc (length (a_source args)), a_source args),
                   Suc (Suc (Suc (brk h))) \<mapsto> (Suc (strlen (a_include_paths args)), []),
                   Suc (Suc (brk h)) := None, Suc (brk h) := None,
                   Suc (Suc (Suc (Suc (brk h)))) := None),
                deletes := deletes h @
                  [Suc (Suc (brk h)), Suc (brk h), Suc (Suc (Suc (Suc (brk h))))]\<rparr>) c)
          (Suc (brk h)))
       (brk h)" (is "_ = AsciiValue_destroy (AsciiValue_destroy ?X _) _")
    using s_mem_RenderFileSync by blast
  have "cells ?X (Suc (brk h)) = None"
    by (simp add: sass_free_file_context_def cells_None_release_all)
  then have "length (faults (AsciiValue_destroy ?X (Suc (brk h)))) = Suc (length (faults ?X))"
    by (rule faults_destroy_released)
  moreover have "length (faults h) \<le> length (faults ?X)"
    using faults_release_all_mono
      [of "h\<lparr>brk := Suc (Suc (Suc (Suc (Suc (brk h))))),
                cells := (cells h)
                  (brk h \<mapsto> (Suc (length (a_source args)), a_source args),
                   Suc (Suc (Suc (brk h))) \<mapsto> (Suc (strlen (a_include_paths args)), []),
                   Suc (Suc (brk h)) := None, Suc (brk h) := None,
                   Suc (Suc (Suc (Suc (brk h)))) := None),
                deletes := deletes h @
                  [Suc (Suc (brk h)), Suc (brk h), Suc (Suc (Suc (Suc (brk h))))]\<rparr>"]
    by (simp add: sass_free_file_context_def)
  moreover have "length (faults (AsciiValue_destroy ?X (Suc (brk h)))) \<le>
      length (faults (s_mem (RenderFileSync env h args)))"
    unfolding m AsciiValue_destroy_def by (rule faults_delete_ptr_mono)
  ultimately have "length (faults h) < length (faults (s_mem (RenderFileSync env h args)))"
    by simp
  then have "faults (s_mem (RenderFileSync env h args)) \<noteq> faults h"
    by auto
  then show ?thesis
    by (simp add: s_ret_RenderFileSync_computed at_return_def)
qed

lemma s_events_RenderFileSync: "s_events (RenderFileSync env h args) = [Release Free_file_context]"
  by (simp add: RenderFileSync_def build_defs Let_def sass_compile_file_sel sync_sel_if
        split del: if_split cong del: if_weak_cong cong: by_value)


subsection \<open>Workers and completion handlers\<close>

lemma WorkOnContext_sel:
  "ctx (WorkOnContext env h w) = sass_compile env h (ctx w)"
  "callback (WorkOnContext env h w) = callback w"
  "errorCallback (WorkOnContext env h w) = errorCallback w"
  by (simp_all add: WorkOnContext_def)

lemma WorkOnFileContext_sel:
  "ctx (WorkOnFileContext env h w) = sass_compile_file env h (ctx w)"
  "callback (WorkOnFileContext env h w) = callback w"
  "errorCallback (WorkOnFileContext env h w) = errorCallback w"
  by (simp_all add: WorkOnFileContext_def)

lemma calls_report_caught [simp]: "calls (report_caught b @ es) = calls es"
  by (simp add: report_caught_def)

lemma calls_Release [simp]: "calls (Release x # es) = calls es"
  by simp

lemma MakeOldCallback_eval:
  "callback w = Some f \<Longrightarrow>
   MakeOldCallback env h w =
     (if error_status (ctx w) = 0
      then (Call Callback [JNull, JString (output_string (ctx w))]
              # report_caught (f [JNull, JString (output_string (ctx w))])
              @ [Release Free_context_wrapper],
            sass_free_context_wrapper env (delete_ptr h (source_string (ctx w))) w)
      else (Call Callback [JString (error_message (ctx w))]
              # report_caught (f [JString (error_message (ctx w))])
              @ [Release Free_context_wrapper],
            sass_free_context_wrapper env (delete_ptr h (source_string (ctx w))) w))"
  by (simp add: MakeOldCallback_def NanCallback_Call_def Let_def)

lemma MakeCallback_eval:
  "callback w = Some f \<Longrightarrow> errorCallback w = Some g \<Longrightarrow>
   MakeCallback env h w =
     (if error_status (ctx w) = 0
      then (Call Callback [JString (output_string (ctx w))]
              # report_caught (f [JString (output_string (ctx w))])
              @ [Release Free_context_wrapper],
            sass_free_context_wrapper env (delete_ptr h (source_string (ctx w))) w)
      else (Call ErrorCallback [JString (error_message (ctx w))]
              # report_caught (g [JString (error_message (ctx w))])
              @ [Release Free_context_wrapper],
            sass_free_context_wrapper env (delete_ptr h (source_string (ctx w))) w))"
  by (simp add: MakeCallback_def NanCallback_Call_def Let_def)

lemma MakeFileCallback_eval:
  "callback w = Some f \<Longrightarrow> errorCallback w = Some g \<Longrightarrow>
   MakeFileCallback env h w =
     (if error_status (ctx w) = 0
      then (Call Callback
              [JString (output_string (ctx w)),
               if source_comments (options (ctx w)) = SASS_SOURCE_COMMENTS_MAP
               then JString (source_map_string (ctx w)) else JNull]
              # report_caught (f
                  [JString (output_string (ctx w)),
                   if source_comments (options (ctx w)) = SASS_SOURCE_COMMENTS_MAP
                   then JString (source_map_string (ctx w)) else JNull])
              @ [Release Free_file_context_wrapper],
            sass_free_file_context_wrapper env (delete_ptr h (input_path (ctx w))) w)
      else (Call ErrorCallback [JString (error_message (ctx w))]
              # report_caught (g [JString (error_message (ctx w))])
              @ [Release Free_file_context_wrapper],
            sass_free_file_context_wrapper env (delete_ptr h (input_path (ctx w))) w))"
  by (simp add: MakeFileCallback_def NanCallback_Call_def Let_def)

subsection \<open>Requests from the call to the end of the completion handler\<close>

lemma async_OldRender_queued:
  "queued (OldRender env h args) = Some w \<Longrightarrow>
   async_OldRender env h args =
     \<lparr>returned = ret (OldRender env h args), submitted = Some w,
      mem_at_return = mem (OldRender env h args),
      worker_saw = Some (request_of (mem (OldRender env h args)) (ctx w)),
      finished = Some (WorkOnContext env (mem (OldRender env h args)) w),
      events = fst (MakeOldCallback env (mem (OldRender env h args))
                 (WorkOnContext env (mem (OldRender env h args)) w)),
      mem_end = snd (MakeOldCallback env (mem (OldRender env h args))
                 (WorkOnContext env (mem (OldRender env h args)) w))\<rparr>"
  by (simp add: async_OldRender_def Let_def split_beta)

lemma async_Render_queued:
  "queued (Render env h args) = Some w \<Longrightarrow>
   async_Render env h args =
     \<lparr>returned = ret (Render env h args), submitted = Some w,
      mem_at_return = mem (Render env h args),
      worker_saw = Some (request_of (mem (Render env h args)) (ctx w)),
      finished = Some (WorkOnContext env (mem (Render env h args)) w),
      events = fst (MakeCallback env (mem (Render env h args))
                 (WorkOnContext env (mem (Render env h args)) w)),
      mem_end = snd (MakeCallback env (mem (Render env h args))
                 (WorkOnContext env (mem (Render env h args)) w))\<rparr>"
  by (simp add: async_Render_def Let_def split_beta)

lemma async_RenderFile_queued:
  "queued (RenderFile env h args) = Some w \<Longrightarrow>
   async_RenderFile env h args =
     \<lparr>returned = ret (RenderFile env h args), submitted = Some w,
      mem_at_return = mem (RenderFile env h args),
      worker_saw = Some (file_request_of (mem (RenderFile env h args)) (ctx w)),
      finished = Some (WorkOnFileContext env (mem (RenderFile env h args)) w),
      events = fst (MakeFileCallback env (mem (RenderFile env h args))
                 (WorkOnFileContext env (mem (RenderFile env h args)) w)),
      mem_end = snd (MakeFileCallback env (mem (RenderFile env h args))
                 (WorkOnFileContext env (mem (RenderFile env h args)) w))\<rparr>"
  by (simp add: async_RenderFile_def Let_def split_beta)

lemma async_not_queued:
  "queued (OldRender env h args) = None \<Longrightarrow>
     async_OldRender env h args = not_queued (OldRender env h args)"
  "queued (Render env h args) = None \<Longrightarrow>
     async_Render env h args = not_queued (Render env h args)"
  "queued (RenderFile env h args) = None \<Longrightarrow>
     async_RenderFile env h args = not_queued (RenderFile env h args)"
  by (simp_all add: async_OldRender_def async_Render_def async_RenderFile_def Let_def)

lemma queued_RenderFile_callbacks:
  assumes "queue_status env = 0"
  obtains w where "queued (RenderFile env h args) = Some w"
    and "callback w = Some (a_callback args)"
    and "errorCallback w = Some (a_errorCallback args)"
    and "source_comments (options (ctx w)) = a_source_comments args"
  using assms
  by (cases "a_source_comments args = SASS_SOURCE_COMMENTS_MAP")
     (simp_all add: queued_RenderFile_Map queued_RenderFile_other)


subsection \<open>What the worker is given\<close>

lemma worker_saw_async_OldRender:
  "queue_status env = 0 \<Longrightarrow>
   worker_saw (async_OldRender env h args) =
     Some \<lparr>req_source = Some (c_string (a_source args)), req_include_paths = None,
           req_image_path = Some [], req_output_style = a_output_style args,
           req_source_comments = a_source_comments args\<rparr>"
  by (simp add: async_OldRender_queued queued_OldRender mem_OldRender request_of_def read_str_def)

lemma worker_saw_async_Render:
  "queue_status env = 0 \<Longrightarrow>
   worker_saw (async_Render env h args) =
     Some \<lparr>req_source = Some (c_string (a_source args)), req_include_paths = None,
           req_image_path = Some [], req_output_style = a_output_style args,
           req_source_comments = a_source_comments args\<rparr>"
  by (simp add: async_Render_queued queued_Render mem_Render request_of_def read_str_def)

lemma worker_saw_async_RenderFile:
  assumes "queue_status env = 0"
  obtains rq where "worker_saw (async_RenderFile env h args) = Some rq"
    and "req_source rq = Some (c_string (a_source args))"
    and "req_include_paths rq = None"
    and "req_image_path rq = Some []"
    and "req_output_style rq = a_output_style args"
    and "req_source_comments rq = a_source_comments args"
    and "a_source_comments args = SASS_SOURCE_COMMENTS_MAP \<longrightarrow>
           req_source_map_file rq = Some (c_string (a_source_map_path args))"
proof (cases "a_source_comments args = SASS_SOURCE_COMMENTS_MAP")
  case True
  let ?w = "(sass_new_file_context_wrapper env)
        \<lparr>ctx := (sass_new_file_context env)
            \<lparr>input_path := Some (Suc (Suc (Suc (brk h)))),
             options := (options (sass_new_file_context env))
               \<lparr>include_paths := Some (Suc (brk h)),
                output_style := a_output_style args,
                image_path := Some (Suc (Suc (Suc (Suc (Suc (brk h)))))),
                source_comments := SASS_SOURCE_COMMENTS_MAP\<rparr>,
             source_map_file := Some (Suc (Suc (Suc (Suc (Suc (Suc (brk h)))))))\<rparr>,
         callback := Some (a_callback args),
         errorCallback := Some (a_errorCallback args)\<rparr>"
  have q: "queued (RenderFile env h args) = Some ?w"
    using assms True by (simp add: queued_RenderFile_Map)
  show ?thesis
    by (rule that [of "file_request_of (mem (RenderFile env h args)) (ctx ?w)"])
       (simp_all add: async_RenderFile_queued [OF q] mem_RenderFile_Map assms True
          file_request_of_def read_str_def)
next
  case False
  let ?w = "(sass_new_file_context_wrapper env)
        \<lparr>ctx := (sass_new_file_context env)
            \<lparr>input_path := Some (Suc (Suc (Suc (brk h)))),
             options := (options (sass_new_file_context env))
               \<lparr>include_paths := Some (Suc (brk h)),
                output_style := a_output_style args,
                image_path := Some (Suc (Suc (Suc (Suc (Suc (brk h)))))),
                source_comments := a_source_comments args\<rparr>\<rparr>,
         callback := Some (a_callback args),
         errorCallback := Some (a_errorCallback args)\<rparr>"
  have q: "queued (RenderFile env h args) = Some ?w"
    using assms False by (simp add: queued_RenderFile_other)
  show ?thesis
    by (rule that [of "file_request_of (mem (RenderFile env h args)) (ctx ?w)"])
       (simp_all add: async_RenderFile_queued [OF q] mem_RenderFile_other assms False
          file_request_of_def read_str_def)
qed

subsection \<open>What the completion handler does\<close>

lemma events_async_OldRender:
  assumes "queue_status env = 0"
  obtains w where "finished (async_OldRender env h args) = Some w"
    and "events (async_OldRender env h args) =
           (if error_status (ctx w) = 0
            then Call Callback [JNull, JString (output_string (ctx w))]
                   # report_caught (a_callback args [JNull, JString (output_string (ctx w))])
                   @ [Release Free_context_wrapper]
            else Call Callback [JString (error_message (ctx w))]
                   # report_caught (a_callback args [JString (error_message (ctx w))])
                   @ [Release Free_context_wrapper])"
proof -
  obtain w0 where q: "queued (OldRender env h args) = Some w0"
    and cb: "callback w0 = Some (a_callback args)"
    using assms by (simp add: queued_OldRender)
  let ?w = "WorkOnContext env (mem (OldRender env h args)) w0"
  have "callback ?w = Some (a_callback args)"
    using cb by (simp add: WorkOnContext_sel)
  then have "events (async_OldRender env h args) =
      (if error_status (ctx ?w) = 0
       then Call Callback [JNull, JString (output_string (ctx ?w))]
              # report_caught (a_callback args [JNull, JString (output_string (ctx ?w))])
              @ [Release Free_context_wrapper]
       else Call Callback [JString (error_message (ctx ?w))]
              # report_caught (a_callback args [JString (error_message (ctx ?w))])
              @ [Release Free_context_wrapper])"
    by (simp add: async_OldRender_queued [OF q] MakeOldCallback_eval)
  moreover have "finished (async_OldRender env h args) = Some ?w"
    by (simp add: async_OldRender_queued [OF q])
  ultimately show ?thesis using that by blast
qed

lemma events_async_Render:
  assumes "queue_status env = 0"
  obtains w where "finished (async_Render env h args) = Some w"
    and "events (async_Render env h args) =
           (if error_status (ctx w) = 0
            then Call Callback [JString (output_string (ctx w))]
                   # report_caught (a_callback args [JString (output_string (ctx w))])
                   @ [Release Free_context_wrapper]
            else Call ErrorCallback [JString (error_message (ctx w))]
                   # report_caught (a_errorCallback args [JString (error_message (ctx w))])
                   @ [Release Free_context_wrapper])"
proof -
  obtain w0 where q: "queued (Render env h args) = Some w0"
    and cb: "callback w0 = Some (a_callback args)"
    and ecb: "errorCallback w0 = Some (a_errorCallback args)"
    using assms by (simp add: queued_Render)
  let ?w = "WorkOnContext env (mem (Render env h args)) w0"
  have "callback ?w = Some (a_callback args)" "errorCallback ?w = Some (a_errorCallback args)"
    using cb ecb by (simp_all add: WorkOnContext_sel)
  then have "events (async_Render env h args) =
      (if error_status (ctx ?w) = 0
       then Call Callback [JString (output_string (ctx ?w))]
              # report_caught (a_callback args [JString (output_string (ctx ?w))])
              @ [Release Free_context_wrapper]
       else Call ErrorCallback [JString (error_message (ctx ?w))]
              # report_caught (a_errorCallback args [JString (error_message (ctx ?w))])
              @ [Release Free_context_wrapper])"
    by (simp add: async_Render_queued [OF q] MakeCallback_eval)
  moreover have "finished (async_Render env h args) = Some ?w"
    by (simp add: async_Render_queued [OF q])
  ultimately show ?thesis using that by blast
qed

lemma events_async_RenderFile:
  assumes "queue_status env = 0"
  obtains w where "finished (async_RenderFile env h args) = Some w"
    and "events (async_RenderFile env h args) =
           (if error_status (ctx w) = 0
            then Call Callback
                   [JString (output_string (ctx w)),
                    if a_source_comments args = SASS_SOURCE_COMMENTS_MAP
                    then JString (source_map_string (ctx w)) else JNull]
                   # report_caught (a_callback args
                       [JString (output_string (ctx w)),
                        if a_source_comments args = SASS_SOURCE_COMMENTS_MAP
                        then JString (source_map_string (ctx w)) else JNull])
                   @ [Release Free_file_context_wrapper]
            else Call ErrorCallback [JString (error_message (ctx w))]
                   # report_caught (a_errorCallback args [JString (error_message (ctx w))])
                   @ [Release Free_file_context_wrapper])"
    and "\<exists>rq. worker_saw (async_RenderFile env h args) = Some rq
           \<and> error_status (ctx w) = res_error_status (compile_file env rq)
           \<and> output_string (ctx w) = res_output_string (compile_file env rq)
           \<and> error_message (ctx w) = res_error_message (compile_file env rq)
           \<and> source_map_string (ctx w) = res_source_map_string (compile_file env rq)"
proof -
  obtain w0 where q: "queued (RenderFile env h args) = Some w0"
    and cb: "callback w0 = Some (a_callback args)"
    and ecb: "errorCallback w0 = Some (a_errorCallback args)"
    and sc: "source_comments (options (ctx w0)) = a_source_comments args"
    using assms by (rule queued_RenderFile_callbacks)
  let ?w = "WorkOnFileContext env (mem (RenderFile env h args)) w0"
  have "callback ?w = Some (a_callback args)" "errorCallback ?w = Some (a_errorCallback args)"
    and "source_comments (options (ctx ?w)) = a_source_comments args"
    using cb ecb sc by (simp_all add: WorkOnFileContext_sel sass_compile_file_sel)
  then have "events (async_RenderFile env h args) =
      (if error_status (ctx ?w) = 0
       then Call Callback
              [JString (output_string (ctx ?w)),
               if a_source_comments args = SASS_SOURCE_COMMENTS_MAP
               then JString (source_map_string (ctx ?w)) else JNull]
              # report_caught (a_callback args
                  [JString (output_string (ctx ?w)),
                   if a_source_comments args = SASS_SOURCE_COMMENTS_MAP
                   then JString (source_map_string (ctx ?w)) else JNull])
              @ [Release Free_file_context_wrapper]
       else Call ErrorCallback [JString (error_message (ctx ?w))]
              # report_caught (a_errorCallback args [JString (error_message (ctx ?w))])
              @ [Release Free_file_context_wrapper])"
    by (simp add: async_RenderFile_queued [OF q] MakeFileCallback_eval)
  moreover have "finished (async_RenderFile env h args) = Some ?w"
    by (simp add: async_RenderFile_queued [OF q])
  moreover have "\<exists>rq. worker_saw (async_RenderFile env h args) = Some rq
           \<and> error_status (ctx ?w) = res_error_status (compile_file env rq)
           \<and> output_string (ctx ?w) = res_output_string (compile_file env rq)
           \<and> error_message (ctx ?w) = res_error_message (compile_file env rq)
           \<and> source_map_string (ctx ?w) = res_source_map_string (compile_file env rq)"
    by (simp add: async_RenderFile_queued [OF q] WorkOnFileContext_sel sass_compile_file_sel)
  ultimately show ?thesis using that by blast
qed

lemma finished_async_Render:
  assumes "queue_status env = 0"
  obtains w rq where "finished (async_Render env h args) = Some w"
    and "worker_saw (async_Render env h args) = Some rq"
    and "error_status (ctx w) = res_error_status (compile env rq)"
    and "output_string (ctx w) = res_output_string (compile env rq)"
    and "error_message (ctx w) = res_error_message (compile env rq)"
proof -
  obtain w0 where q: "queued (Render env h args) = Some w0"
    using assms by (simp add: queued_Render)
  show ?thesis
    by (rule that [of "WorkOnContext env (mem (Render env h args)) w0"
                      "request_of (mem (Render env h args)) (ctx w0)"])
       (simp_all add: async_Render_queued [OF q] WorkOnContext_sel sass_compile_sel)
qed

subsection \<open>A request that was not queued\<close>

lemma async_refused:
  assumes "queue_status env \<noteq> 0"
  shows "async_OldRender env h args = not_queued (OldRender env h args)"
    and "async_Render env h args = not_queued (Render env h args)"
    and "async_RenderFile env h args = not_queued (RenderFile env h args)"
proof -
  show "async_OldRender env h args = not_queued (OldRender env h args)"
    using assms by (simp add: async_not_queued queued_OldRender)
  show "async_Render env h args = not_queued (Render env h args)"
    using assms by (simp add: async_not_queued queued_Render)
  have "queued (RenderFile env h args) = None"
    using assms
    by (cases "a_source_comments args = SASS_SOURCE_COMMENTS_MAP")
       (simp_all add: queued_RenderFile_Map queued_RenderFile_other)
  then show "async_RenderFile env h args = not_queued (RenderFile env h args)"
    by (simp add: async_not_queued)
qed

subsection \<open>Whole runs\<close>

lemma finished_async_OldRender:
  assumes "queue_status env = 0"
  obtains w rq where "finished (async_OldRender env h args) = Some w"
    and "worker_saw (async_OldRender env h args) = Some rq"
    and "error_status (ctx w) = res_error_status (compile env rq)"
    and "output_string (ctx w) = res_output_string (compile env rq)"
    and "error_message (ctx w) = res_error_message (compile env rq)"
proof -
  obtain w0 where q: "queued (OldRender env h args) = Some w0"
    using assms by (simp add: queued_OldRender)
  show ?thesis
    by (rule that [of "WorkOnContext env (mem (OldRender env h args)) w0"
                      "request_of (mem (OldRender env h args)) (ctx w0)"])
       (simp_all add: async_OldRender_queued [OF q] WorkOnContext_sel sass_compile_sel)
qed

lemma not_queued_sel:
  "returned (not_queued e) = ret e" "submitted (not_queued e) = None"
  "worker_saw (not_queued e) = None" "finished (not_queued e) = None"
  "events (not_queued e) = []" "mem_at_return (not_queued e) = mem e"
  "mem_end (not_queued e) = mem e"
  by (simp_all add: not_queued_def)

lemma submitted_async:
  "submitted (async_OldRender env h args) = queued (OldRender env h args)"
  "submitted (async_Render env h args) = queued (Render env h args)"
  "submitted (async_RenderFile env h args) = queued (RenderFile env h args)"
proof -
  show "submitted (async_OldRender env h args) = queued (OldRender env h args)"
    by (cases "queued (OldRender env h args)")
       (simp_all add: async_not_queued not_queued_sel async_OldRender_queued)
  show "submitted (async_Render env h args) = queued (Render env h args)"
    by (cases "queued (Render env h args)")
       (simp_all add: async_not_queued not_queued_sel async_Render_queued)
  show "submitted (async_RenderFile env h args) = queued (RenderFile env h args)"
    by (cases "queued (RenderFile env h args)")
       (simp_all add: async_not_queued not_queued_sel async_RenderFile_queued)
qed

lemma returned_async:
  "returned (async_OldRender env h args) = ret (OldRender env h args)"
  "returned (async_Render env h args) = ret (Render env h args)"
  "returned (async_RenderFile env h args) = ret (RenderFile env h args)"
proof -
  show "returned (async_OldRender env h args) = ret (OldRender env h args)"
    by (cases "queued (OldRender env h args)")
       (simp_all add: async_not_queued not_queued_sel async_OldRender_queued)
  show "returned (async_Render env h args) = ret (Render env h args)"
    by (cases "queued (Render env h args)")
       (simp_all add: async_not_queued not_queued_sel async_Render_queued)
  show "returned (async_RenderFile env h args) = ret (RenderFile env h args)"
    by (cases "queued (RenderFile env h args)")
       (simp_all add: async_not_queued not_queued_sel async_RenderFile_queued)
qed

lemma queued_RenderFile_options:
  assumes "queue_status env = 0"
  obtains w where "queued (RenderFile env h args) = Some w"
    and "output_style (options (ctx w)) = a_output_style args"
    and "source_comments (options (ctx w)) = a_source_comments args"
  using assms
  by (cases "a_source_comments args = SASS_SOURCE_COMMENTS_MAP")
     (simp_all add: queued_RenderFile_Map queued_RenderFile_other)

lemma RenderFile_run:
  assumes "queue_status env = 0"
  obtains w rq where "finished (async_RenderFile env h args) = Some w"
    and "worker_saw (async_RenderFile env h args) = Some rq"
    and "error_status (ctx w) = res_error_status (compile_file env rq)"
    and "req_source rq = Some (c_string (a_source args))"
    and "req_include_paths rq = None"
    and "req_image_path rq = Some []"
    and "req_output_style rq = a_output_style args"
    and "req_source_comments rq = a_source_comments args"
    and "a_source_comments args = SASS_SOURCE_COMMENTS_MAP \<longrightarrow>
           req_source_map_file rq = Some (c_string (a_source_map_path args))"
    and "calls (events (async_RenderFile env h args)) =
           [if res_error_status (compile_file env rq) = 0
            then (Callback,
                  [JString (res_output_string (compile_file env rq)),
                   if a_source_comments args = SASS_SOURCE_COMMENTS_MAP
                   then JString (res_source_map_string (compile_file env rq)) else JNull])
            else (ErrorCallback, [JString (res_error_message (compile_file env rq))])]"
proof -
  obtain rq where rq: "worker_saw (async_RenderFile env h args) = Some rq"
    and f: "req_source rq = Some (c_string (a_source args))"
      "req_include_paths rq = None"
      "req_image_path rq = Some []"
      "req_output_style rq = a_output_style args"
      "req_source_comments rq = a_source_comments args"
      "a_source_comments args = SASS_SOURCE_COMMENTS_MAP \<longrightarrow>
           req_source_map_file rq = Some (c_string (a_source_map_path args))"
    using assms by (rule worker_saw_async_RenderFile)
  obtain w where w: "finished (async_RenderFile env h args) = Some w"
    and ev: "events (async_RenderFile env h args) =
           (if error_status (ctx w) = 0
            then Call Callback
                   [JString (output_string (ctx w)),
                    if a_source_comments args = SASS_SOURCE_COMMENTS_MAP
                    then JString (source_map_string (ctx w)) else JNull]
                   # report_caught (a_callback args
                       [JString (output_string (ctx w)),
                        if a_source_comments args = SASS_SOURCE_COMMENTS_MAP
                        then JString (source_map_string (ctx w)) else JNull])
                   @ [Release Free_file_context_wrapper]
            else Call ErrorCallback [JString (error_message (ctx w))]
                   # report_caught (a_errorCallback args [JString (error_message (ctx w))])
                   @ [Release Free_file_context_wrapper])"
    and res: "\<exists>rq. worker_saw (async_RenderFile env h args) = Some rq
           \<and> error_status (ctx w) = res_error_status (compile_file env rq)
           \<and> output_string (ctx w) = res_output_string (compile_file env rq)
           \<and> error_message (ctx w) = res_error_message (compile_file env rq)
           \<and> source_map_string (ctx w) = res_source_map_string (compile_file env rq)"
    using assms by (rule events_async_RenderFile)
  from res rq have r: "error_status (ctx w) = res_error_status (compile_file env rq)"
      "output_string (ctx w) = res_output_string (compile_file env rq)"
      "error_message (ctx w) = res_error_message (compile_file env rq)"
      "source_map_string (ctx w) = res_source_map_string (compile_file env rq)"
    by simp_all
  have "calls (events (async_RenderFile env h args)) =
           [if res_error_status (compile_file env rq) = 0
            then (Callback,
                  [JString (res_output_string (compile_file env rq)),
                   if a_source_comments args = SASS_SOURCE_COMMENTS_MAP
                   then JString (res_source_map_string (compile_file env rq)) else JNull])
            else (ErrorCallback, [JString (res_error_message (compile_file env rq))])]"
    unfolding ev r by simp
  with w rq r(1) f that show ?thesis by blast
qed

lemma Render_run:
  assumes "queue_status env = 0"
  obtains w where "finished (async_Render env h args) = Some w"
    and "calls (events (async_Render env h args)) =
           [if res_error_status (compile env
                 \<lparr>req_source = Some (c_string (a_source args)), req_include_paths = None,
                  req_image_path = Some [], req_output_style = a_output_style args,
                  req_source_comments = a_source_comments args\<rparr>) = 0
            then (Callback, [JString (res_output_string (compile env
                 \<lparr>req_source = Some (c_string (a_source args)), req_include_paths = None,
                  req_image_path = Some [], req_output_style = a_output_style args,
                  req_source_comments = a_source_comments args\<rparr>))])
            else (ErrorCallback, [JString (res_error_message (compile env
                 \<lparr>req_source = Some (c_string (a_source args)), req_include_paths = None,
                  req_image_path = Some [], req_output_style = a_output_style args,
                  req_source_comments = a_source_comments args\<rparr>))])]"
proof -
  obtain w where w: "finished (async_Render env h args) = Some w"
    and ev: "events (async_Render env h args) =
           (if error_status (ctx w) = 0
            then Call Callback [JString (output_string (ctx w))]
                   # report_caught (a_callback args [JString (output_string (ctx w))])
                   @ [Release Free_context_wrapper]
            else Call ErrorCallback [JString (error_message (ctx w))]
                   # report_caught (a_errorCallback args [JString (error_message (ctx w))])
                   @ [Release Free_context_wrapper])"
    using assms by (rule events_async_Render)
  obtain w' rq where "finished (async_Render env h args) = Some w'"
    and "worker_saw (async_Render env h args) = Some rq"
    and "error_status (ctx w') = res_error_status (compile env rq)"
    and "output_string (ctx w') = res_output_string (compile env rq)"
    and "error_message (ctx w') = res_error_message (compile env rq)"
    using assms by (rule finished_async_Render)
  with w have r: "error_status (ctx w) = res_error_status (compile env rq)"
    "output_string (ctx w) = res_output_string (compile env rq)"
    "error_message (ctx w) = res_error_message (compile env rq)"
    and rq: "rq = \<lparr>req_source = Some (c_string (a_source args)), req_include_paths = None,
                  req_image_path = Some [], req_output_style = a_output_style args,
                  req_source_comments = a_source_comments args\<rparr>"
    by (simp_all add: worker_saw_async_Render [OF assms])
  show ?thesis
    by (rule that [OF w]) (simp add: ev r rq)
qed

lemma worker_saw_async_RenderFile_Map:
  assumes "queue_status env = 0" and "a_source_comments args = SASS_SOURCE_COMMENTS_MAP"
  shows "worker_saw (async_RenderFile env h args) =
     Some \<lparr>req_source = Some (c_string (a_source args)), req_include_paths = None,
           req_image_path = Some [], req_output_style = a_output_style args,
           req_source_comments = SASS_SOURCE_COMMENTS_MAP,
           req_source_map_file = Some (c_string (a_source_map_path args))\<rparr>"
proof -
  let ?w = "(sass_new_file_context_wrapper env)
        \<lparr>ctx := (sass_new_file_context env)
            \<lparr>input_path := Some (Suc (Suc (Suc (brk h)))),
             options := (options (sass_new_file_context env))
               \<lparr>include_paths := Some (Suc (brk h)),
                output_style := a_output_style args,
                image_path := Some (Suc (Suc (Suc (Suc (Suc (brk h)))))),
                source_comments := SASS_SOURCE_COMMENTS_MAP\<rparr>,
             source_map_file := Some (Suc (Suc (Suc (Suc (Suc (Suc (brk h)))))))\<rparr>,
         callback := Some (a_callback args),
         errorCallback := Some (a_errorCallback args)\<rparr>"
  have q: "queued (RenderFile env h args) = Some ?w"
    using assms by (simp add: queued_RenderFile_Map)
  show ?thesis
    by (simp add: async_RenderFile_queued [OF q] mem_RenderFile_Map assms
          file_request_of_def read_str_def)
qed


subsection \<open>The store at the end of a request\<close>

lemma mem_at_return_async_Render:
  "mem_at_return (async_Render env h args) = mem (Render env h args)"
  by (cases "queued (Render env h args)")
     (simp_all add: async_not_queued not_queued_sel async_Render_queued)

lemma addr_numerals: "a + 1 = Suc a" "a + 3 = Suc (Suc (Suc a))"
  by simp_all

lemma context_ptr_misses:
  assumes "source_string c \<noteq> Some x" "include_paths (options c) \<noteq> Some x"
    "image_path (options c) \<noteq> Some x"
  shows "Some x \<notin> set (map (context_ptr c) fs)"
proof
  assume "Some x \<in> set (map (context_ptr c) fs)"
  then obtain f where "context_ptr c f = Some x" by auto
  with assms context_ptr_cases [of c f] show False by auto
qed

lemma mem_end_async_Render:
  assumes "queue_status env = 0"
  shows "\<exists>c. source_string c = Some (Suc (Suc (brk h)))
    \<and> include_paths (options c) = Some (Suc (brk h))
    \<and> image_path (options c) = Some (Suc (Suc (Suc (Suc (brk h)))))
    \<and> mem_end (async_Render env h args) =
           release_all (delete_ptr (mem (Render env h args)) (Some (Suc (Suc (brk h)))))
             (map (context_ptr c) (helper_frees env Free_context_wrapper))"
proof -
  let ?queued = "(sass_new_context_wrapper env)
        \<lparr>ctx := (sass_new_context env)
            \<lparr>source_string := Some (Suc (Suc (brk h))),
             options := (options (sass_new_context env))
               \<lparr>include_paths := Some (Suc (brk h)),
                image_path := Some (Suc (Suc (Suc (Suc (brk h))))),
                output_style := a_output_style args,
                source_comments := a_source_comments args\<rparr>\<rparr>,
         callback := Some (a_callback args),
         errorCallback := Some (a_errorCallback args)\<rparr>"
  let ?w = "WorkOnContext env (mem (Render env h args)) ?queued"
  have q: "queued (Render env h args) = Some ?queued"
    using assms by (simp add: queued_Render)
  have cb: "callback ?w = Some (a_callback args)" "errorCallback ?w = Some (a_errorCallback args)"
    by (simp_all add: WorkOnContext_sel)
  have "mem_end (async_Render env h args) =
          sass_free_context_wrapper env
            (delete_ptr (mem (Render env h args)) (source_string (ctx ?w))) ?w"
    by (simp add: async_Render_queued [OF q] MakeCallback_eval [OF cb])
  then have "mem_end (async_Render env h args) =
           release_all (delete_ptr (mem (Render env h args)) (Some (Suc (Suc (brk h)))))
             (map (context_ptr (ctx ?w)) (helper_frees env Free_context_wrapper))"
    by (simp add: sass_free_context_wrapper_def WorkOnContext_sel sass_compile_sel)
  then show ?thesis
    by (intro exI [of _ "ctx ?w"]) (simp add: WorkOnContext_sel sass_compile_sel)
qed

lemma raising_callback_is_reported:
  assumes "queue_status env = 0" and "\<And>argv. a_callback args argv"
    and "\<And>argv. a_errorCallback args argv"
  shows "tl (events (async_Render env h args)) = [FatalException, Release Free_context_wrapper]"
proof -
  obtain w where "finished (async_Render env h args) = Some w"
    and "events (async_Render env h args) =
           (if error_status (ctx w) = 0
            then Call Callback [JString (output_string (ctx w))]
                   # report_caught (a_callback args [JString (output_string (ctx w))])
                   @ [Release Free_context_wrapper]
            else Call ErrorCallback [JString (error_message (ctx w))]
                   # report_caught (a_errorCallback args [JString (error_message (ctx w))])
                   @ [Release Free_context_wrapper])"
    using assms(1) by (rule events_async_Render)
  then show ?thesis
    using assms(2,3) by (simp add: report_caught_def)
qed

subsection \<open>The example host\<close>

lemma example_host_sel:
  "queue_status example_host = 0" "assertions example_host"
  "compile example_host = example_compile" "compile_file example_host = example_compile"
  "helper_frees example_host = (\<lambda>helper. [])"
  "sass_new_context example_host = example_context"
  "sass_new_file_context example_host = example_file_context"
  by (simp_all add: example_host_def)

section \<open>The claims\<close>

subsection \<open>Callbacks\<close>

text \<open>
  Claim C1. Every asynchronous request whose completion handler runs (the work queue
  accepted it) sees exactly one callback invocation. For \<open>render\<close> and \<open>renderFile\<close>
  it is the success callback when the compiler left error status 0 and the error callback
  otherwise; for \<open>oldRender\<close> it is the single callback.
\<close>

theorem exactly_one_callback:
  assumes "queue_status env = 0"
  shows "(\<exists>w. finished (async_Render env h args) = Some w \<and>
            map fst (calls (events (async_Render env h args))) =
              [if error_status (ctx w) = 0 then Callback else ErrorCallback])
       \<and> (\<exists>w. finished (async_RenderFile env h args) = Some w \<and>
            map fst (calls (events (async_RenderFile env h args))) =
              [if error_status (ctx w) = 0 then Callback else ErrorCallback])
       \<and> (\<exists>w. finished (async_OldRender env h args) = Some w \<and>
            map fst (calls (events (async_OldRender env h args))) = [Callback])"
proof (intro conjI)
  obtain w where "finished (async_Render env h args) = Some w"
    and "events (async_Render env h args) =
           (if error_status (ctx w) = 0
            then Call Callback [JString (output_string (ctx w))]
                   # report_caught (a_callback args [JString (output_string (ctx w))])
                   @ [Release Free_context_wrapper]
            else Call ErrorCallback [JString (error_message (ctx w))]
                   # report_caught (a_errorCallback args [JString (error_message (ctx w))])
                   @ [Release Free_context_wrapper])"
    using assms by (rule events_async_Render)
  then show "\<exists>w. finished (async_Render env h args) = Some w \<and>
            map fst (calls (events (async_Render env h args))) =
              [if error_status (ctx w) = 0 then Callback else ErrorCallback]"
    by simp
next
  obtain w where "finished (async_RenderFile env h args) = Some w"
    and "events (async_RenderFile env h args) =
           (if error_status (ctx w) = 0
            then Call Callback
                   [JString (output_string (ctx w)),
                    if a_source_comments args = SASS_SOURCE_COMMENTS_MAP
                    then JString (source_map_string (ctx w)) else JNull]
                   # report_caught (a_callback args
                       [JString (output_string (ctx w)),
                        if a_source_comments args = SASS_SOURCE_COMMENTS_MAP
                        then JString (source_map_string (ctx w)) else JNull])
                   @ [Release Free_file_context_wrapper]
            else Call ErrorCallback [JString (error_message (ctx w))]
                   # report_caught (a_errorCallback args [JString (error_message (ctx w))])
                   @ [Release Free_file_context_wrapper])"
    using assms by (rule events_async_RenderFile)
  then show "\<exists>w. finished (async_RenderFile env h args) = Some w \<and>
            map fst (calls (events (async_RenderFile env h args))) =
              [if error_status (ctx w) = 0 then Callback else ErrorCallback]"
    by simp
next
  obtain w where "finished (async_OldRender env h args) = Some w"
    and "events (async_OldRender env h args) =
           (if error_status (ctx w) = 0
            then Call Callback [JNull, JString (output_string (ctx w))]
                   # report_caught (a_callback args [JNull, JString (output_string (ctx w))])
                   @ [Release Free_context_wrapper]
            else Call Callback [JString (error_message (ctx w))]
                   # report_caught (a_callback args [JString (error_message (ctx w))])
                   @ [Release Free_context_wrapper])"
    using assms by (rule events_async_OldRender)
  then show "\<exists>w. finished (async_OldRender env h args) = Some w \<and>
            map fst (calls (events (async_OldRender env h args))) = [Callback]"
    by simp
qed

theorem exactly_one_callback_witness:
  "queue_status example_host = 0
   \<and> map fst (calls (events (async_Render example_host empty_heap example_args))) = [Callback]
   \<and> map fst (calls (events (async_Render example_host empty_heap
        (example_args\<lparr>a_source := ''a{''\<rparr>)))) = [ErrorCallback]
   \<and> map fst (calls (events (async_OldRender example_host empty_heap example_args))) = [Callback]"
proof -
  have q: "queue_status example_host = 0" by (simp add: example_host_sel)
  obtain w rq where "finished (async_Render example_host empty_heap example_args) = Some w"
    and "worker_saw (async_Render example_host empty_heap example_args) = Some rq"
    and "error_status (ctx w) = res_error_status (compile example_host rq)"
    using q by (rule finished_async_Render)
  then have a: "map fst (calls (events (async_Render example_host empty_heap example_args))) = [Callback]"
    using exactly_one_callback [OF q, of empty_heap example_args]
    by (auto simp add: worker_saw_async_Render [OF q] example_host_sel example_compile_def
          example_args_def c_string_def)
  obtain w' rq' where "finished (async_Render example_host empty_heap (example_args\<lparr>a_source := ''a{''\<rparr>)) = Some w'"
    and "worker_saw (async_Render example_host empty_heap (example_args\<lparr>a_source := ''a{''\<rparr>)) = Some rq'"
    and "error_status (ctx w') = res_error_status (compile example_host rq')"
    using q by (rule finished_async_Render)
  then have b: "map fst (calls (events (async_Render example_host empty_heap
        (example_args\<lparr>a_source := ''a{''\<rparr>)))) = [ErrorCallback]"
    using exactly_one_callback [OF q, of empty_heap "example_args\<lparr>a_source := ''a{''\<rparr>"]
    by (auto simp add: worker_saw_async_Render [OF q] example_host_sel example_compile_def
          example_args_def c_string_def)
  have c: "map fst (calls (events (async_OldRender example_host empty_heap example_args))) = [Callback]"
    using exactly_one_callback [OF q, of empty_heap example_args] by auto
  show ?thesis using q a b c by simp
qed

text \<open>
  Claim C4. \<open>oldRender\<close> invokes its single callback error-first. On success the
  arguments are \<open>null\<close> and the output text. On failure the call has one argument, the
  error message (line 35: \<open>argc = 1\<close>): no second argument is passed, so the result slot
  is absent.
\<close>

theorem legacy_callback_shape:
  assumes "queue_status env = 0"
  shows "\<exists>w argv. finished (async_OldRender env h args) = Some w \<and>
           calls (events (async_OldRender env h args)) = [(Callback, argv)] \<and>
           (error_status (ctx w) = 0 \<longrightarrow>
              argv = [JNull, JString (output_string (ctx w))]) \<and>
           (error_status (ctx w) \<noteq> 0 \<longrightarrow>
              argv = [JString (error_message (ctx w))] \<and>
              argument argv 0 = Some (JString (error_message (ctx w))) \<and>
              (argument argv 1 = None \<or> argument argv 1 = Some JNull))"
proof -
  obtain w where "finished (async_OldRender env h args) = Some w"
    and "events (async_OldRender env h args) =
           (if error_status (ctx w) = 0
            then Call Callback [JNull, JString (output_string (ctx w))]
                   # report_caught (a_callback args [JNull, JString (output_string (ctx w))])
                   @ [Release Free_context_wrapper]
            else Call Callback [JString (error_message (ctx w))]
                   # report_caught (a_callback args [JString (error_message (ctx w))])
                   @ [Release Free_context_wrapper])"
    using assms by (rule events_async_OldRender)
  then show ?thesis
    by (cases "error_status (ctx w) = 0") (simp_all add: argument_def)
qed

theorem legacy_callback_shape_witness:
  "queue_status example_host = 0
   \<and> calls (events (async_OldRender example_host empty_heap example_args)) =
        [(Callback, [JNull, JString ''a {}''])]
   \<and> calls (events (async_OldRender example_host empty_heap
        (example_args\<lparr>a_source := ''a{''\<rparr>))) = [(Callback, [JString ''invalid css''])]"
proof -
  have q: "queue_status example_host = 0" by (simp add: example_host_sel)
  obtain w rq where "finished (async_OldRender example_host empty_heap example_args) = Some w"
    and "worker_saw (async_OldRender example_host empty_heap example_args) = Some rq"
    and "error_status (ctx w) = res_error_status (compile example_host rq)"
    and "output_string (ctx w) = res_output_string (compile example_host rq)"
    and "error_message (ctx w) = res_error_message (compile example_host rq)"
    using q by (rule finished_async_OldRender)
  then have a: "calls (events (async_OldRender example_host empty_heap example_args)) =
        [(Callback, [JNull, JString ''a {}''])]"
    using legacy_callback_shape [OF q, of empty_heap example_args]
    by (auto simp add: worker_saw_async_OldRender [OF q] example_host_sel example_compile_def
          example_args_def c_string_def)
  obtain w' rq' where
    "finished (async_OldRender example_host empty_heap (example_args\<lparr>a_source := ''a{''\<rparr>)) = Some w'"
    and "worker_saw (async_OldRender example_host empty_heap (example_args\<lparr>a_source := ''a{''\<rparr>)) = Some rq'"
    and "error_status (ctx w') = res_error_status (compile example_host rq')"
    and "output_string (ctx w') = res_output_string (compile example_host rq')"
    and "error_message (ctx w') = res_error_message (compile example_host rq')"
    using q by (rule finished_async_OldRender)
  then have b: "calls (events (async_OldRender example_host empty_heap
        (example_args\<lparr>a_source := ''a{''\<rparr>))) = [(Callback, [JString ''invalid css''])]"
    using legacy_callback_shape [OF q, of empty_heap "example_args\<lparr>a_source := ''a{''\<rparr>"]
    by (auto simp add: worker_saw_async_OldRender [OF q] example_host_sel example_compile_def
          example_args_def c_string_def)
  show ?thesis using q a b by simp
qed

subsection \<open>A submission that the work queue refuses\<close>

text \<open>
  Claim C8, as the code has it. When \<open>uv_queue_work\<close> returns a non-zero status, no
  callback is ever invoked and no error is raised to the caller: \<open>assert(status == 0)\<close>
  aborts the process when assertions are compiled in, and otherwise the entry point
  returns \<open>undefined\<close> and the request is dropped.
\<close>

theorem refused_submission_is_not_reported:
  assumes "queue_status env \<noteq> 0"
  shows "events (async_Render env h args) = []
       \<and> submitted (async_Render env h args) = None
       \<and> returned (async_Render env h args) =
           (if assertions env then Aborted else Returned JUndefined)
       \<and> events (async_RenderFile env h args) = []
       \<and> submitted (async_RenderFile env h args) = None
       \<and> returned (async_RenderFile env h args) =
           (if assertions env then Aborted else Returned JUndefined)
       \<and> events (async_OldRender env h args) = []
       \<and> submitted (async_OldRender env h args) = None
       \<and> returned (async_OldRender env h args) =
           (if assertions env then Aborted else Returned JUndefined)"
  using assms
  by (simp add: async_refused not_queued_sel ret_Render ret_RenderFile ret_OldRender)

theorem refused_submission_is_not_reported_witness:
  "queue_status (example_host\<lparr>queue_status := 1\<rparr>) \<noteq> 0
   \<and> events (async_Render (example_host\<lparr>queue_status := 1\<rparr>) empty_heap example_args) = []
   \<and> returned (async_Render (example_host\<lparr>queue_status := 1\<rparr>) empty_heap example_args) = Aborted"
  using refused_submission_is_not_reported
          [of "example_host\<lparr>queue_status := 1\<rparr>" empty_heap example_args]
  by (simp add: example_host_sel)

text \<open>The claim as stated fails: a refused \<open>render\<close> request reaches neither callback
  and raises nothing, with assertions compiled in and without.\<close>

theorem refused_submission_counterexample:
  "calls (events (async_Render (example_host\<lparr>queue_status := 1\<rparr>) empty_heap example_args)) = []
   \<and> returned (async_Render (example_host\<lparr>queue_status := 1\<rparr>) empty_heap example_args) = Aborted
   \<and> calls (events (async_Render (example_host\<lparr>queue_status := 1, assertions := False\<rparr>)
        empty_heap example_args)) = []
   \<and> returned (async_Render (example_host\<lparr>queue_status := 1, assertions := False\<rparr>)
        empty_heap example_args) = Returned JUndefined"
  by (simp add: async_refused not_queued_sel ret_Render example_host_sel)

subsection \<open>Output style and source-comment mode\<close>

text \<open>
  Claim C9, as the code has it. Every 32-bit value passed as output style or
  source-comment mode is stored unchanged: by the asynchronous entry points, the work
  queue accepting the request, in the options of the context they queue for the worker,
  and by the synchronous ones in the request they call the compiler with. No entry
  point validates, rejects or clamps it, and the asynchronous entry points return
  \<open>undefined\<close> whatever the value is. The only test the binding makes on either value is
  the comparison of the source-comment mode with \<open>SASS_SOURCE_COMMENTS_MAP\<close>; what an
  out-of-range value means is left to the compiler.
\<close>

theorem style_and_comment_mode_stored_unchecked:
  assumes "queue_status env = 0"
  shows "(\<exists>w. submitted (async_Render env h args) = Some w
            \<and> output_style (options (ctx w)) = a_output_style args
            \<and> source_comments (options (ctx w)) = a_source_comments args)
       \<and> (\<exists>w. submitted (async_OldRender env h args) = Some w
            \<and> output_style (options (ctx w)) = a_output_style args
            \<and> source_comments (options (ctx w)) = a_source_comments args)
       \<and> (\<exists>w. submitted (async_RenderFile env h args) = Some w
            \<and> output_style (options (ctx w)) = a_output_style args
            \<and> source_comments (options (ctx w)) = a_source_comments args)
       \<and> req_output_style (compiler_saw (RenderSync env h args)) = a_output_style args
       \<and> req_source_comments (compiler_saw (RenderSync env h args)) = a_source_comments args
       \<and> req_output_style (compiler_saw (RenderFileSync env h args)) = a_output_style args
       \<and> req_source_comments (compiler_saw (RenderFileSync env h args)) = a_source_comments args
       \<and> returned (async_Render env h args) = Returned JUndefined
       \<and> returned (async_OldRender env h args) = Returned JUndefined
       \<and> returned (async_RenderFile env h args) = Returned JUndefined"
proof -
  obtain w where "queued (RenderFile env h args) = Some w"
    and "output_style (options (ctx w)) = a_output_style args"
    and "source_comments (options (ctx w)) = a_source_comments args"
    using assms by (rule queued_RenderFile_options)
  then have "\<exists>w. submitted (async_RenderFile env h args) = Some w
            \<and> output_style (options (ctx w)) = a_output_style args
            \<and> source_comments (options (ctx w)) = a_source_comments args"
    by (simp add: submitted_async)
  then show ?thesis
    using assms
    by (simp add: submitted_async returned_async queued_Render queued_OldRender
          ret_Render ret_OldRender ret_RenderFile compiler_saw_RenderSync
          compiler_saw_RenderFileSync_fields)
qed

theorem style_and_comment_mode_stored_unchecked_witness:
  "queue_status example_host = 0
   \<and> (\<exists>w. submitted (async_Render example_host empty_heap
              (example_args\<lparr>a_output_style := 7, a_source_comments := 5\<rparr>)) = Some w
          \<and> output_style (options (ctx w)) = 7 \<and> source_comments (options (ctx w)) = 5)
   \<and> req_output_style (compiler_saw (RenderSync example_host empty_heap
        (example_args\<lparr>a_output_style := 7, a_source_comments := 5\<rparr>))) = 7"
  using style_and_comment_mode_stored_unchecked
          [of example_host empty_heap "example_args\<lparr>a_output_style := 7, a_source_comments := 5\<rparr>"]
  by (simp add: example_host_sel)

text \<open>The claim as stated fails: output style 7 is neither rejected nor clamped, by
  \<open>render\<close> and by \<open>renderSync\<close>; the compiler is called with 7.\<close>

theorem out_of_range_style_counterexample:
  "worker_saw (async_Render example_host empty_heap (example_args\<lparr>a_output_style := 7\<rparr>)) =
     Some \<lparr>req_source = Some ''a{}'', req_include_paths = None, req_image_path = Some [],
           req_output_style = 7, req_source_comments = 0\<rparr>
   \<and> returned (async_Render example_host empty_heap (example_args\<lparr>a_output_style := 7\<rparr>)) =
       Returned JUndefined
   \<and> compiler_saw (RenderSync example_host empty_heap (example_args\<lparr>a_output_style := 7\<rparr>)) =
       \<lparr>req_source = Some ''a{}'', req_include_paths = Some ''lib'', req_image_path = Some [],
        req_output_style = 7, req_source_comments = 0\<rparr>"
proof -
  have q: "queue_status example_host = 0" by (simp add: example_host_sel)
  show ?thesis
    by (simp add: returned_async ret_Render q worker_saw_async_Render compiler_saw_RenderSync
          example_args_def c_string_def)
qed

subsection \<open>The source map path\<close>

text \<open>
  Claim C10. When the source-comment mode is not Map, two \<open>renderFile\<close> calls that
  differ only in the source map path end the same way, queue the same wrapper (the same
  context fields and callbacks), hand the compiler the same request and invoke the same
  callback with the same arguments.
\<close>

theorem source_map_path_ignored_outside_map_mode:
  assumes "a_source_comments args \<noteq> SASS_SOURCE_COMMENTS_MAP"
  shows "returned (async_RenderFile env h (args\<lparr>a_source_map_path := p\<rparr>)) =
           returned (async_RenderFile env h (args\<lparr>a_source_map_path := q\<rparr>))
       \<and> submitted (async_RenderFile env h (args\<lparr>a_source_map_path := p\<rparr>)) =
           submitted (async_RenderFile env h (args\<lparr>a_source_map_path := q\<rparr>))
       \<and> worker_saw (async_RenderFile env h (args\<lparr>a_source_map_path := p\<rparr>)) =
           worker_saw (async_RenderFile env h (args\<lparr>a_source_map_path := q\<rparr>))
       \<and> finished (async_RenderFile env h (args\<lparr>a_source_map_path := p\<rparr>)) =
           finished (async_RenderFile env h (args\<lparr>a_source_map_path := q\<rparr>))
       \<and> events (async_RenderFile env h (args\<lparr>a_source_map_path := p\<rparr>)) =
           events (async_RenderFile env h (args\<lparr>a_source_map_path := q\<rparr>))"
proof -
  let ?A = "args\<lparr>a_source_map_path := p\<rparr>" and ?B = "args\<lparr>a_source_map_path := q\<rparr>"
  have A: "a_source_comments ?A \<noteq> SASS_SOURCE_COMMENTS_MAP"
    and B: "a_source_comments ?B \<noteq> SASS_SOURCE_COMMENTS_MAP"
    using assms by simp_all
  have qu: "queued (RenderFile env h ?A) = queued (RenderFile env h ?B)"
    by (simp add: queued_RenderFile_other [OF A] queued_RenderFile_other [OF B])
  have re: "ret (RenderFile env h ?A) = ret (RenderFile env h ?B)"
    by (simp add: ret_RenderFile)
  show ?thesis
  proof (cases "queue_status env = 0")
    case True
    have me: "mem (RenderFile env h ?A) = mem (RenderFile env h ?B)"
      by (simp add: mem_RenderFile_other [OF True A] mem_RenderFile_other [OF True B])
    obtain w where w: "queued (RenderFile env h ?A) = Some w"
      using True by (simp add: queued_RenderFile_other [OF A])
    then have w': "queued (RenderFile env h ?B) = Some w"
      using qu by simp
    show ?thesis
      by (simp add: async_RenderFile_queued [OF w] async_RenderFile_queued [OF w'] me re)
  next
    case False
    then show ?thesis
      by (simp add: async_refused not_queued_sel re)
  qed
qed

theorem source_map_path_ignored_outside_map_mode_witness:
  "a_source_comments example_args \<noteq> SASS_SOURCE_COMMENTS_MAP
   \<and> events (async_RenderFile example_host empty_heap
        (example_args\<lparr>a_source_map_path := ''x.map''\<rparr>)) =
       events (async_RenderFile example_host empty_heap
        (example_args\<lparr>a_source_map_path := ''y.map''\<rparr>))
   \<and> submitted (async_RenderFile example_host empty_heap
        (example_args\<lparr>a_source_map_path := ''x.map''\<rparr>)) =
       submitted (async_RenderFile example_host empty_heap
        (example_args\<lparr>a_source_map_path := ''y.map''\<rparr>))"
proof -
  have h: "a_source_comments example_args \<noteq> SASS_SOURCE_COMMENTS_MAP"
    by (simp add: example_args_def SASS_SOURCE_COMMENTS_MAP_def)
  show ?thesis
    using h source_map_path_ignored_outside_map_mode
            [OF h, of example_host empty_heap "''x.map''" "''y.map''"]
    by simp
qed




subsection \<open>The include-path buffer\<close>

text \<open>
  Every entry point allocates a buffer for the include paths and, in the next
  assignment, overwrites the only pointer to it with \<open>*bstr\<close>, the buffer of the
  \<open>AsciiValue\<close> local (lines 61 and 63, 120 and 121, 147 and 148, 238 and 239, 269 and
  270); the source text, two lines earlier, is copied with \<open>strcpy\<close>. The
  theorems below evaluate what follows from that. With \<open>h\<close> the store at the call, the
  two \<open>AsciiValue\<close> buffers of \<open>Render\<close> and \<open>RenderSync\<close> are at \<open>brk h\<close> and
  \<open>brk h + 1\<close>, the copy of the source at \<open>brk h + 2\<close> and the buffer allocated for the
  include paths at \<open>brk h + 3\<close>.
\<close>

text \<open>
  Claim C2 does not hold of the code. At the end of the completion handler of a
  \<open>render\<close> request the buffer allocated for the include paths is still allocated and
  was never released, whichever of the context's pointers \<open>sass_free_context_wrapper\<close>
  releases.
\<close>

theorem render_never_releases_include_buffer:
  assumes "queue_status env = 0"
  shows "cells (mem_end (async_Render env h args)) (brk h + 3) =
           Some (strlen (a_include_paths args) + 1, [])
       \<and> times_released (mem_end (async_Render env h args)) (brk h + 3) =
           times_released h (brk h + 3)"
proof -
  obtain c where c: "source_string c = Some (Suc (Suc (brk h)))"
      "include_paths (options c) = Some (Suc (brk h))"
      "image_path (options c) = Some (Suc (Suc (Suc (Suc (brk h)))))"
    and m: "mem_end (async_Render env h args) =
           release_all (delete_ptr (mem (Render env h args)) (Some (Suc (Suc (brk h)))))
             (map (context_ptr c) (helper_frees env Free_context_wrapper))"
    using mem_end_async_Render [OF assms, of h args] by blast
  have miss: "Some (Suc (Suc (Suc (brk h)))) \<notin>
      set (map (context_ptr c) (helper_frees env Free_context_wrapper))"
    by (rule context_ptr_misses) (simp_all add: c)
  show ?thesis
    unfolding m times_released_def addr_numerals
    by (simp add: cells_release_all_other [OF miss] count_release_all_other [OF miss]
          cells_delete_ptr_other count_delete_ptr_other mem_Render [OF assms])
qed

theorem render_never_releases_include_buffer_witness:
  "queue_status example_host = 0
   \<and> cells (mem_end (async_Render example_host empty_heap example_args)) 3 = Some (4, [])
   \<and> times_released (mem_end (async_Render example_host empty_heap example_args)) 3 = 0"
proof -
  have q: "queue_status example_host = 0" by (simp add: example_host_sel)
  show ?thesis
    using q render_never_releases_include_buffer [OF q, of empty_heap example_args]
    by (simp add: empty_heap_def example_args_def strlen_def c_string_def times_released_def)
qed

text \<open>
  Claim C3 does not hold of the code. At the end of a \<open>renderSync\<close> call the buffer
  allocated for the include paths is still allocated and was never released, and the
  buffer of the \<open>AsciiValue\<close> local has been released twice: once by
  \<open>delete ctx->options.include_paths\<close> and once by its destructor. The second release
  is a fault, so the value or error of lines 163 to 173 is computed and the call
  ends undefined (\<open>s_ret_RenderSync\<close>, and \<open>s_ret_RenderFileSync\<close> for the file variant).
\<close>

theorem renderSync_releases_the_callers_buffer:
  "cells (s_mem (RenderSync env h args)) (brk h + 3) =
     Some (strlen (a_include_paths args) + 1, [])
   \<and> times_released (s_mem (RenderSync env h args)) (brk h + 3) = times_released h (brk h + 3)
   \<and> fst (AsciiValue (snd (AsciiValue h (a_source args))) (a_include_paths args)) = brk h + 1
   \<and> times_released (s_mem (RenderSync env h args)) (brk h + 1) =
       times_released h (brk h + 1) + 2"
  unfolding times_released_def addr_numerals
  by (simp add: s_mem_RenderSync AsciiValue_def)

text \<open>
  Claim C5 does not hold of the code. The context that \<open>render\<close> queues holds, as its
  include paths, the address of the \<open>AsciiValue\<close> local's buffer. Once the entry point
  has returned that buffer is gone: the source text is still readable through the
  context, the include paths are not, and the worker is given none.
\<close>

theorem render_include_paths_dangle:
  assumes "queue_status env = 0"
  shows "\<exists>w. submitted (async_Render env h args) = Some w
           \<and> include_paths (options (ctx w)) =
               Some (fst (AsciiValue (snd (AsciiValue h (a_source args))) (a_include_paths args)))
           \<and> read_str (mem_at_return (async_Render env h args))
                (include_paths (options (ctx w))) = None
           \<and> read_str (mem_at_return (async_Render env h args)) (source_string (ctx w)) =
               Some (c_string (a_source args))
           \<and> worker_saw (async_Render env h args) =
               Some \<lparr>req_source = Some (c_string (a_source args)), req_include_paths = None,
                     req_image_path = Some [], req_output_style = a_output_style args,
                     req_source_comments = a_source_comments args\<rparr>"
  using assms
  by (simp add: submitted_async queued_Render mem_at_return_async_Render mem_Render
        worker_saw_async_Render read_str_def AsciiValue_def)

theorem render_include_paths_dangle_witness:
  "queue_status example_host = 0
   \<and> worker_saw (async_Render example_host empty_heap example_args) =
       Some \<lparr>req_source = Some ''a{}'', req_include_paths = None,
             req_image_path = Some [], req_output_style = 0, req_source_comments = 0\<rparr>"
proof -
  have q: "queue_status example_host = 0" by (simp add: example_host_sel)
  show ?thesis
    using q render_include_paths_dangle [OF q, of empty_heap example_args]
    by (auto simp add: example_args_def c_string_def)
qed

text \<open>
  Claim C7 does not hold of the code. Called with the same source and options,
  \<open>renderSync\<close> has the compiler read the include paths while they are allocated, and
  \<open>render\<close> leaves the worker's compiler the pointer to the released buffer: the two
  requests differ in their include paths, and in nothing else. \<open>renderFile\<close> and
  \<open>renderFileSync\<close> differ in their include paths in the same way.
\<close>

theorem render_and_renderSync_requests_differ:
  assumes "queue_status env = 0"
  shows "worker_saw (async_Render env h args) =
           Some \<lparr>req_source = Some (c_string (a_source args)), req_include_paths = None,
                 req_image_path = Some [], req_output_style = a_output_style args,
                 req_source_comments = a_source_comments args\<rparr>
       \<and> compiler_saw (RenderSync env h args) =
           \<lparr>req_source = Some (c_string (a_source args)),
            req_include_paths = Some (c_string (a_include_paths args)),
            req_image_path = Some [], req_output_style = a_output_style args,
            req_source_comments = a_source_comments args\<rparr>
       \<and> (\<exists>rq. worker_saw (async_RenderFile env h args) = Some rq
              \<and> req_source rq = Some (c_string (a_source args))
              \<and> req_include_paths rq = None)
       \<and> req_source (compiler_saw (RenderFileSync env h args)) = Some (c_string (a_source args))
       \<and> req_include_paths (compiler_saw (RenderFileSync env h args)) =
           Some (c_string (a_include_paths args))"
proof -
  obtain w rq where "finished (async_RenderFile env h args) = Some w"
    and "worker_saw (async_RenderFile env h args) = Some rq"
    and "error_status (ctx w) = res_error_status (compile_file env rq)"
    and "req_source rq = Some (c_string (a_source args))"
    and "req_include_paths rq = None"
    and "req_image_path rq = Some []"
    and "req_output_style rq = a_output_style args"
    and "req_source_comments rq = a_source_comments args"
    and "a_source_comments args = SASS_SOURCE_COMMENTS_MAP \<longrightarrow>
           req_source_map_file rq = Some (c_string (a_source_map_path args))"
    and "calls (events (async_RenderFile env h args)) =
           [if res_error_status (compile_file env rq) = 0
            then (Callback,
                  [JString (res_output_string (compile_file env rq)),
                   if a_source_comments args = SASS_SOURCE_COMMENTS_MAP
                   then JString (res_source_map_string (compile_file env rq)) else JNull])
            else (ErrorCallback, [JString (res_error_message (compile_file env rq))])]"
    using assms by (rule RenderFile_run)
  then have "\<exists>rq. worker_saw (async_RenderFile env h args) = Some rq
              \<and> req_source rq = Some (c_string (a_source args))
              \<and> req_include_paths rq = None"
    by simp
  then show ?thesis
    using assms
    by (simp add: worker_saw_async_Render compiler_saw_RenderSync
          compiler_saw_RenderFileSync_fields)
qed

text \<open>With a compiler that needs the include paths, \<open>render\<close> reports an error for the
  input that \<open>renderSync\<close> compiles.\<close>

theorem render_and_renderSync_requests_differ_witness:
  "queue_status (example_host\<lparr>compile := example_compile_import\<rparr>) = 0
   \<and> worker_saw (async_Render (example_host\<lparr>compile := example_compile_import\<rparr>)
        empty_heap example_args) =
       Some \<lparr>req_source = Some ''a{}'', req_include_paths = None, req_image_path = Some [],
             req_output_style = 0, req_source_comments = 0\<rparr>
   \<and> compiler_saw (RenderSync (example_host\<lparr>compile := example_compile_import\<rparr>)
        empty_heap example_args) =
       \<lparr>req_source = Some ''a{}'', req_include_paths = Some ''lib'', req_image_path = Some [],
        req_output_style = 0, req_source_comments = 0\<rparr>
   \<and> calls (events (async_Render (example_host\<lparr>compile := example_compile_import\<rparr>)
        empty_heap example_args)) = [(ErrorCallback, [JString ''not found''])]
   \<and> res_output_string (compile (example_host\<lparr>compile := example_compile_import\<rparr>)
        (compiler_saw (RenderSync (example_host\<lparr>compile := example_compile_import\<rparr>)
           empty_heap example_args))) = ''found''"
proof -
  let ?H = "example_host\<lparr>compile := example_compile_import\<rparr>"
  have q: "queue_status ?H = 0" by (simp add: example_host_sel)
  note d = render_and_renderSync_requests_differ [OF q, of empty_heap example_args]
  obtain w where "finished (async_Render ?H empty_heap example_args) = Some w"
    and "calls (events (async_Render ?H empty_heap example_args)) =
           [if res_error_status (compile ?H
                 \<lparr>req_source = Some (c_string (a_source example_args)), req_include_paths = None,
                  req_image_path = Some [], req_output_style = a_output_style example_args,
                  req_source_comments = a_source_comments example_args\<rparr>) = 0
            then (Callback, [JString (res_output_string (compile ?H
                 \<lparr>req_source = Some (c_string (a_source example_args)), req_include_paths = None,
                  req_image_path = Some [], req_output_style = a_output_style example_args,
                  req_source_comments = a_source_comments example_args\<rparr>))])
            else (ErrorCallback, [JString (res_error_message (compile ?H
                 \<lparr>req_source = Some (c_string (a_source example_args)), req_include_paths = None,
                  req_image_path = Some [], req_output_style = a_output_style example_args,
                  req_source_comments = a_source_comments example_args\<rparr>))])]"
    using q by (rule Render_run)
  then have c: "calls (events (async_Render ?H empty_heap example_args)) =
      [(ErrorCallback, [JString ''not found''])]"
    by (simp add: example_compile_import_def)
  have s: "res_output_string (compile ?H (compiler_saw (RenderSync ?H empty_heap example_args))) =
      ''found''"
    unfolding conjunct1 [OF conjunct2 [OF d]] by (simp add: example_compile_import_def)
  show ?thesis
    using q d c s by (simp add: example_args_def c_string_def)
qed

end
